theory Spec2Isabelle
  imports Main "HOL-Library.Word" "HOL-Library.Signed_Division"
begin

unbundle bit_operations_syntax

section \<open>The DS3231 driver (ds3231.c)\<close>

subsection \<open>Data\<close>

type_synonym u8 = "8 word"
type_synonym u32 = "32 word"

text \<open>
  \<^verbatim>\<open>struct rtc_time\<close> of \<^verbatim>\<open>linux/rtc.h\<close>: nine C \<^verbatim>\<open>int\<close> fields. \<open>tm_mon\<close> counts
  from 0 and \<open>tm_year\<close> from 1900. The fields are modelled as \<open>int\<close>; where the
  source converts one to \<^verbatim>\<open>u8\<close> or \<^verbatim>\<open>unsigned int\<close> the conversion is written out.
\<close>

record rtc_time =
  tm_sec :: int
  tm_min :: int
  tm_hour :: int
  tm_mday :: int
  tm_mon :: int
  tm_year :: int
  tm_wday :: int
  tm_yday :: int
  tm_isdst :: int

text \<open>
  A C \<^verbatim>\<open>int\<close> holds 32 bits, and the kernel is compiled with wrapping signed arithmetic:
  \<open>s32_of_int v\<close> is the \<^verbatim>\<open>int\<close> that the mathematical value \<open>v\<close> becomes. It is
  applied where the driver adds to or subtracts from a field that can hold any value.
\<close>

definition s32_of_int :: "int \<Rightarrow> int" where
  "s32_of_int v = (v + 2 ^ 31) mod 2 ^ 32 - 2 ^ 31"

text \<open>The errno values of \<^verbatim>\<open>asm/errno.h\<close> that the driver returns.\<close>

definition EIO :: int where "EIO = 5"
definition EFAULT :: int where "EFAULT = 14"
definition EINVAL :: int where "EINVAL = 22"

subsection \<open>Register definitions\<close>

definition DS3231_REG_SECONDS :: nat where "DS3231_REG_SECONDS = 0"
definition DS3231_REG_MINUTES :: nat where "DS3231_REG_MINUTES = 1"
definition DS3231_REG_HOURS :: nat where "DS3231_REG_HOURS = 2"
definition DS3231_BIT_12H :: u8 where "DS3231_BIT_12H = 0x40"
definition DS3231_BIT_nAM :: u8 where "DS3231_BIT_nAM = 0x20"
definition DS3231_REG_DAY :: nat where "DS3231_REG_DAY = 3"
definition DS3231_REG_DATE :: nat where "DS3231_REG_DATE = 4"
definition DS3231_REG_MONTH :: nat where "DS3231_REG_MONTH = 5"
definition DS3231_BIT_CENTURY :: u8 where "DS3231_BIT_CENTURY = 0x80"
definition DS3231_REG_YEAR :: nat where "DS3231_REG_YEAR = 6"

subsection \<open>Packed BCD (\<^verbatim>\<open>linux/bcd.h\<close>)\<close>

text \<open>
  The kernel's helpers, which the driver calls on every register:
  \<^verbatim>\<open>unsigned bcd2bin(unsigned char val) { return (val & 0x0f) + (val >> 4) * 10; }\<close> and
  \<^verbatim>\<open>unsigned char bin2bcd(unsigned val) { return ((val / 10) << 4) + val % 10; }\<close>.
  The result of \<open>bin2bcd\<close> is cut to eight bits by its return type.
\<close>

definition bcd2bin :: "u8 \<Rightarrow> nat" where
  "bcd2bin val = unat (val AND 0x0f) + unat (drop_bit 4 val) * 10"

definition bin2bcd :: "nat \<Rightarrow> u8" where
  "bin2bcd val = word_of_nat (push_bit 4 (val div 10) + val mod 10)"

subsection \<open>The date validator\<close>

text \<open>
  \<^verbatim>\<open>unsigned int curr_year = date->tm_year + 1900;\<close> The sum is converted to
  \<^verbatim>\<open>unsigned int\<close>, that is taken modulo \<open>2 ^ 32\<close>.
\<close>

definition curr_year :: "rtc_time \<Rightarrow> nat" where
  "curr_year date = nat ((tm_year date + 1900) mod 2 ^ 32)"

text \<open>
  \<^verbatim>\<open>ds3231_check_date\<close> (lines 216-280): the four range tests in the source's order, then the
  \<^verbatim>\<open>switch\<close> on \<open>tm_mon\<close>. The function returns \<^verbatim>\<open>u32\<close>: 0, or \<^verbatim>\<open>-EINVAL\<close> converted
  to an unsigned 32-bit value at \<^verbatim>\<open>check_fail\<close>.
\<close>

definition check_fail :: u32 where
  "check_fail = word_of_int (- EINVAL)"

definition ds3231_check_date :: "rtc_time \<Rightarrow> u32" where
  "ds3231_check_date date =
    (if tm_sec date < 0 \<or> tm_sec date > 59 then check_fail
     else if tm_min date < 0 \<or> tm_min date > 59 then check_fail
     else if tm_hour date < 0 \<or> tm_hour date > 23 then check_fail
     else if tm_year date < 100 \<or> tm_year date > 299 then check_fail
     else if tm_mon date \<in> {0, 2, 4, 6, 7, 9, 11} then
       (if tm_mday date < 1 \<or> tm_mday date > 31 then check_fail else 0)
     else if tm_mon date \<in> {3, 5, 8, 10} then
       (if tm_mday date < 1 \<or> tm_mday date > 30 then check_fail else 0)
     else if tm_mon date = 1 then
       (if (curr_year date mod 4 = 0 \<and> curr_year date mod 100 \<noteq> 0)
           \<or> curr_year date mod 400 = 0
        then (if tm_mday date < 1 \<or> tm_mday date > 29 then check_fail else 0)
        else (if tm_mday date < 1 \<or> tm_mday date > 28 then check_fail else 0))
     else check_fail)"

text \<open>
  The callers store the result in an \<^verbatim>\<open>s32\<close> (\<^verbatim>\<open>ret = ds3231_check_date(&date)\<close>), which
  reads the same 32 bits as a signed value.
\<close>

definition s32_of_u32 :: "u32 \<Rightarrow> int" where
  "s32_of_u32 w = sint w"


subsection \<open>The I2C bus and the mutex\<close>

text \<open>
  The I2C core and the chip are outside the driver. The bus is modelled as a state:
  the chip's register file, the adapter's fault behaviour, and the history of what the
  driver did. \<open>errs\<close> gives the adapter's answer to the next transfer as a function
  of the history so far: a negative errno when the transfer fails, anything else when
  it succeeds. The history also records \<^verbatim>\<open>mutex_lock(&i2c_lock)\<close> and
  \<^verbatim>\<open>mutex_unlock(&i2c_lock)\<close>, oldest event first.
\<close>

datatype event = Lock | Unlock | RdByte u8 | WrByte u8 u8

record i2c_bus =
  regs :: "u8 \<Rightarrow> u8"
  errs :: "event list \<Rightarrow> int"
  trace :: "event list"

definition mutex_lock :: "i2c_bus \<Rightarrow> i2c_bus" where
  "mutex_lock bus = bus\<lparr>trace := trace bus @ [Lock]\<rparr>"

definition mutex_unlock :: "i2c_bus \<Rightarrow> i2c_bus" where
  "mutex_unlock bus = bus\<lparr>trace := trace bus @ [Unlock]\<rparr>"

text \<open>
  \<^verbatim>\<open>i2c_smbus_read_byte_data\<close> returns the byte read (0..255) or a negative errno;
  \<^verbatim>\<open>i2c_smbus_write_byte_data\<close> returns 0 or a negative errno, and the register
  changes only when the transfer succeeds.
\<close>

definition i2c_smbus_read_byte_data :: "i2c_bus \<Rightarrow> u8 \<Rightarrow> int \<times> i2c_bus" where
  "i2c_smbus_read_byte_data bus command =
    (let e = errs bus (trace bus);
         bus' = bus\<lparr>trace := trace bus @ [RdByte command]\<rparr>
     in if e < 0 then (e, bus') else (uint (regs bus command), bus'))"

definition i2c_smbus_write_byte_data :: "i2c_bus \<Rightarrow> u8 \<Rightarrow> u8 \<Rightarrow> int \<times> i2c_bus" where
  "i2c_smbus_write_byte_data bus command val =
    (let e = errs bus (trace bus);
         bus' = bus\<lparr>trace := trace bus @ [WrByte command val]\<rparr>
     in if e < 0 then (e, bus') else (0, bus'\<lparr>regs := (regs bus)(command := val)\<rparr>))"

subsection \<open>Block transfers\<close>

text \<open>
  \<^verbatim>\<open>ds3231_read_block_data\<close> (lines 56-69): the \<^verbatim>\<open>for\<close> loop over \<open>i\<close>. \<open>buf\<close> holds the bytes
  stored so far (\<^verbatim>\<open>buf[0]\<close> .. \<^verbatim>\<open>buf[i-1]\<close>). The first failing transfer ends the loop
  with its errno; otherwise the result is \<open>i\<close>, the number of bytes read.
\<close>

function ds3231_read_loop :: "u8 \<Rightarrow> nat \<Rightarrow> nat \<Rightarrow> u8 list \<Rightarrow> i2c_bus \<Rightarrow> int \<times> u8 list \<times> i2c_bus" where
  "ds3231_read_loop reg len i buf bus =
    (if i < len then
       (let (data, bus') = i2c_smbus_read_byte_data bus (reg + word_of_nat i)
        in if data < 0 then (data, buf, bus')
           else ds3231_read_loop reg len (i + 1) (buf @ [word_of_int data]) bus')
     else (int i, buf, bus))"
  by pat_completeness auto
termination
  by (relation "measure (\<lambda>(reg, len, i, buf, bus). len - i)") auto

definition ds3231_read_block_data :: "u8 \<Rightarrow> u8 \<Rightarrow> i2c_bus \<Rightarrow> int \<times> u8 list \<times> i2c_bus" where
  "ds3231_read_block_data reg len bus = ds3231_read_loop reg (unat len) 0 [] bus"

text \<open>
  \<^verbatim>\<open>ds3231_write_block_data\<close> (lines 75-87): the same loop for writing; it returns 0 or
  the errno of the first failing transfer.
\<close>

function ds3231_write_loop :: "u8 \<Rightarrow> nat \<Rightarrow> nat \<Rightarrow> u8 list \<Rightarrow> i2c_bus \<Rightarrow> int \<times> i2c_bus" where
  "ds3231_write_loop reg len i buf bus =
    (if i < len then
       (let (err, bus') = i2c_smbus_write_byte_data bus (reg + word_of_nat i) (buf ! i)
        in if err < 0 then (err, bus')
           else ds3231_write_loop reg len (i + 1) buf bus')
     else (0, bus))"
  by pat_completeness auto
termination
  by (relation "measure (\<lambda>(reg, len, i, buf, bus). len - i)") auto

definition ds3231_write_block_data :: "u8 \<Rightarrow> u8 \<Rightarrow> u8 list \<Rightarrow> i2c_bus \<Rightarrow> int \<times> i2c_bus" where
  "ds3231_write_block_data reg len buf bus = ds3231_write_loop reg (unat len) 0 buf bus"

subsection \<open>The register codec\<close>

text \<open>
  The part of \<^verbatim>\<open>ds3231_read_date\<close> after the block read (lines 106-139):
  it fills six fields of \<open>date\<close> from the seven registers. With the century bit set it
  stops after \<open>tm_mday\<close> and returns \<^verbatim>\<open>EINVAL\<close>, the positive value.
\<close>

definition ds3231_decode :: "u8 list \<Rightarrow> rtc_time \<Rightarrow> int \<times> rtc_time" where
  "ds3231_decode rg date =
    (let date1 = date\<lparr>tm_mday := int (bcd2bin (rg ! DS3231_REG_DATE))\<rparr>
     in if rg ! DS3231_REG_MONTH AND DS3231_BIT_CENTURY \<noteq> 0 then (EINVAL, date1)
        else
          let date2 = date1\<lparr>tm_mon := int (bcd2bin (rg ! DS3231_REG_MONTH)) - 1\<rparr>;
              date3 = date2\<lparr>tm_year := int (bcd2bin (rg ! DS3231_REG_YEAR)) + 100\<rparr>;
              h0 = rg ! DS3231_REG_HOURS;
              (h, hour_pm) =
                (if h0 AND DS3231_BIT_12H \<noteq> 0 then
                   (let h1 = h0 AND NOT DS3231_BIT_12H
                    in if h1 AND DS3231_BIT_nAM \<noteq> 0 then (h1 AND NOT DS3231_BIT_nAM, 12)
                       else (h1, 0))
                 else (h0, 0::nat));
              date4 = date3\<lparr>tm_hour := int (bcd2bin h + hour_pm)\<rparr>;
              date5 = date4\<lparr>tm_min := int (bcd2bin (rg ! DS3231_REG_MINUTES))\<rparr>;
              date6 = date5\<lparr>tm_sec := int (bcd2bin (rg ! DS3231_REG_SECONDS))\<rparr>
          in (0, date6))"

text \<open>\<^verbatim>\<open>(u8) x\<close> for a C \<^verbatim>\<open>int\<close>: the low eight bits.\<close>

definition u8_of_int :: "int \<Rightarrow> u8" where
  "u8_of_int x = word_of_int x"

text \<open>
  The part of \<^verbatim>\<open>ds3231_write_date\<close> between the block read and the block write
  (lines 159-200): the registers read from the chip, updated from \<open>date\<close>, statement
  by statement.
  C's \<^verbatim>\<open>%\<close> truncates towards zero (\<open>smod\<close>).
\<close>

definition ds3231_encode :: "rtc_time \<Rightarrow> u8 list \<Rightarrow> u8 list" where
  "ds3231_encode date rg =
    (let hour = tm_hour date;
         rg1 = rg[DS3231_REG_DATE := bin2bcd (unat (u8_of_int (tm_mday date) AND 0x3f))];
         rg2 = rg1[DS3231_REG_MONTH := rg1 ! DS3231_REG_MONTH AND NOT 0x9f];
         rg3 = rg2[DS3231_REG_MONTH :=
                 rg2 ! DS3231_REG_MONTH OR bin2bcd (unat (u8_of_int (tm_mon date + 1) AND 0x1f))];
         rg4 = (if tm_year date > 199
                then rg3[DS3231_REG_MONTH := rg3 ! DS3231_REG_MONTH OR 0x80] else rg3);
         rg5 = rg4[DS3231_REG_YEAR := bin2bcd (unat (u8_of_int (tm_year date smod 100) AND 0xff))];
         rg6 =
           (if rg5 ! DS3231_REG_HOURS AND DS3231_BIT_12H \<noteq> 0 then
              (let (a, hour') =
                     (if hour \<ge> 12
                      then (rg5[DS3231_REG_HOURS := rg5 ! DS3231_REG_HOURS OR DS3231_BIT_nAM],
                            hour - 12)
                      else (rg5[DS3231_REG_HOURS := rg5 ! DS3231_REG_HOURS AND NOT DS3231_BIT_nAM],
                            hour));
                   b = a[DS3231_REG_HOURS := a ! DS3231_REG_HOURS AND NOT 0x1f]
               in b[DS3231_REG_HOURS :=
                      b ! DS3231_REG_HOURS OR bin2bcd (unat (u8_of_int hour' AND 0x1f))])
            else
              (let b = rg5[DS3231_REG_HOURS := rg5 ! DS3231_REG_HOURS AND NOT 0x3f]
               in b[DS3231_REG_HOURS :=
                      b ! DS3231_REG_HOURS OR bin2bcd (unat (u8_of_int hour AND 0x3f))]));
         rg7 = rg6[DS3231_REG_MINUTES := bin2bcd (unat (u8_of_int (tm_min date)))];
         rg8 = rg7[DS3231_REG_SECONDS := bin2bcd (unat (u8_of_int (tm_sec date)))]
     in rg8)"

subsection \<open>Reading and writing the date\<close>

text \<open>
  \<^verbatim>\<open>ds3231_read_date\<close> (lines 93-140): lock, read the seven registers from \<^verbatim>\<open>DS3231_REG_SECONDS\<close>,
  unlock, then decode. \<open>date\<close> is the caller's struct as it comes in; the result is
  the return value, the struct as it goes out, and the bus.
\<close>

definition ds3231_read_date :: "rtc_time \<Rightarrow> i2c_bus \<Rightarrow> int \<times> rtc_time \<times> i2c_bus" where
  "ds3231_read_date date bus =
    (let bus1 = mutex_lock bus;
         (ret, rg, bus2) = ds3231_read_block_data 0 7 bus1;
         bus3 = mutex_unlock bus2
     in if ret < 0 then (ret, date, bus3)
        else (let (r, date') = ds3231_decode rg date in (r, date', bus3)))"

text \<open>
  \<^verbatim>\<open>ds3231_write_date\<close> (lines 146-210): lock, read, unlock; encode; lock, write, unlock. The source
  calls \<^verbatim>\<open>ds3231_write_block_data\<close> as a statement and never stores its result, so
  the test \<^verbatim>\<open>if(ret < 0)\<close> that follows the write still looks at the result of
  the read.
\<close>

definition ds3231_write_date :: "rtc_time \<Rightarrow> i2c_bus \<Rightarrow> int \<times> i2c_bus" where
  "ds3231_write_date date bus =
    (let bus1 = mutex_lock bus;
         (ret, rg, bus2) = ds3231_read_block_data 0 7 bus1;
         bus3 = mutex_unlock bus2
     in if ret < 0 then (ret, bus3)
        else
          (let rg' = ds3231_encode date rg;
               bus4 = mutex_lock bus3;
               (err, bus5) = ds3231_write_block_data 0 7 rg' bus4;
               bus6 = mutex_unlock bus5
           in if ret < 0 then (ret, bus6) else (0, bus6)))"

subsection \<open>Formatting (\<^verbatim>\<open>scnprintf\<close>)\<close>

text \<open>
  The kernel's \<^verbatim>\<open>%0wd\<close>: the decimal digits of the value, padded with zeros on the
  left to \<open>w\<close> characters; a negative value starts with a minus sign, which counts
  toward the width.
\<close>

definition digit_char :: "nat \<Rightarrow> char" where
  "digit_char d = ''0123456789'' ! d"

fun dec_digits :: "nat \<Rightarrow> string" where
  "dec_digits n =
    (if n < 10 then [digit_char n] else dec_digits (n div 10) @ [digit_char (n mod 10)])"

definition fmt_0d :: "nat \<Rightarrow> int \<Rightarrow> string" where
  "fmt_0d w n =
    (if n < 0
     then CHR ''-'' # replicate (w - 1 - length (dec_digits (nat (- n)))) CHR ''0''
            @ dec_digits (nat (- n))
     else replicate (w - length (dec_digits (nat n))) CHR ''0'' @ dec_digits (nat n))"

text \<open>
  \<^verbatim>\<open>scnprintf(date_str, sizeof(date_str), "%02d.%02d.%04d %02d:%02d:%02d\n", ...)\<close>
  with the six arguments of \<^verbatim>\<open>ds3231_dev_read\<close>; \<^verbatim>\<open>date.tm_mon + 1\<close> and
  \<^verbatim>\<open>date.tm_year + 1900\<close> are \<^verbatim>\<open>int\<close> additions. \<^verbatim>\<open>scnprintf\<close> keeps at most
  \<open>size - 1\<close> characters.
\<close>

definition date_text :: "rtc_time \<Rightarrow> string" where
  "date_text date =
     fmt_0d 2 (tm_mday date) @ ''.'' @ fmt_0d 2 (s32_of_int (tm_mon date + 1)) @ ''.''
     @ fmt_0d 4 (s32_of_int (tm_year date + 1900)) @ '' ''
     @ fmt_0d 2 (tm_hour date) @ '':'' @ fmt_0d 2 (tm_min date) @ '':''
     @ fmt_0d 2 (tm_sec date) @ [CHR 0x0A]"

definition scnprintf_date :: "nat \<Rightarrow> rtc_time \<Rightarrow> string" where
  "scnprintf_date sz date = take (sz - 1) (date_text date)"

subsection \<open>Parsing (\<^verbatim>\<open>sscanf\<close>)\<close>

text \<open>
  The kernel's \<^verbatim>\<open>vsscanf\<close> (\<^verbatim>\<open>lib/vsprintf.c\<close>), for the three kinds of directive the
  driver's format has: a literal character, white space, and \<^verbatim>\<open>%d\<close> with or without
  a field width. The input is a C string: it ends at the first NUL; the end of the
  list reads as NUL too.
\<close>

datatype directive = Lit char | Spaces | ConvD "nat option"

definition cur :: "string \<Rightarrow> char" where
  "cur s = (case s of [] \<Rightarrow> CHR 0x00 | c # _ \<Rightarrow> c)"

definition isdigit :: "char \<Rightarrow> bool" where
  "isdigit c = (48 \<le> (of_char c :: nat) \<and> (of_char c :: nat) \<le> 57)"

definition isspace :: "char \<Rightarrow> bool" where
  "isspace c = ((9 \<le> (of_char c :: nat) \<and> (of_char c :: nat) \<le> 13)
                \<or> (of_char c :: nat) = 32 \<or> (of_char c :: nat) = 160)"

definition skip_spaces :: "string \<Rightarrow> string" where
  "skip_spaces s = dropWhile isspace s"

text \<open>
  \<^verbatim>\<open>_parse_integer_limit\<close> in base 10: at most \<open>max_chars\<close> digits are taken, and the
  scan stops before the first character that is not a digit.
\<close>

fun parse_integer_limit :: "nat \<Rightarrow> nat \<Rightarrow> string \<Rightarrow> nat \<times> string" where
  "parse_integer_limit max_chars res [] = (res, [])"
| "parse_integer_limit max_chars res (c # s) =
    (if max_chars = 0 then (res, c # s)
     else if isdigit c
       then parse_integer_limit (max_chars - 1) (res * 10 + ((of_char c :: nat) - 48)) s
       else (res, c # s))"

definition simple_strntoull :: "string \<Rightarrow> nat \<Rightarrow> nat \<times> string" where
  "simple_strntoull startp max_chars =
    (if 0 < max_chars then parse_integer_limit max_chars 0 startp else (0, startp))"

definition simple_strntoll :: "string \<Rightarrow> nat \<Rightarrow> int \<times> string" where
  "simple_strntoll cp max_chars =
    (if cur cp = CHR ''-'' \<and> max_chars > 0
     then (let (v, next) = simple_strntoull (tl cp) (max_chars - 1) in (- int v, next))
     else (let (v, next) = simple_strntoull cp max_chars in (int v, next)))"

text \<open>
  The value is computed in 64 bits and stored through an \<^verbatim>\<open>int *\<close>: the low 32 bits,
  read as signed (\<open>s32_of_int\<close>).
\<close>

definition INT_MAX :: nat where
  "INT_MAX = 2147483647"

text \<open>
  One \<^verbatim>\<open>%d\<close> conversion: nothing is converted at the end of the string; leading white
  space is skipped; the first character after an optional minus sign must be a digit.
  \<open>None\<close> is the \<^verbatim>\<open>break\<close> out of the scanning loop.
\<close>

definition conv_d :: "nat option \<Rightarrow> string \<Rightarrow> (int \<times> string) option" where
  "conv_d field_width str0 =
    (if cur str0 = CHR 0x00 then None
     else
       let str = skip_spaces str0
       in if cur str = CHR ''-'' \<and> field_width = Some 1 then None
          else
            let digit = (if cur str = CHR ''-'' then cur (tl str) else cur str)
            in if \<not> isdigit digit then None
               else
                 (let (v, next) =
                        simple_strntoll str (case field_width of Some w \<Rightarrow> w | None \<Rightarrow> INT_MAX)
                  in Some (s32_of_int v, next)))"

text \<open>
  The scanning loop. \<open>vals\<close> are the values stored so far, in the order of the
  \<^verbatim>\<open>int *\<close> arguments.
\<close>

fun vsscanf :: "directive list \<Rightarrow> string \<Rightarrow> int list \<Rightarrow> int list" where
  "vsscanf [] str vals = vals"
| "vsscanf (Spaces # fmt) str vals = vsscanf fmt (skip_spaces str) vals"
| "vsscanf (Lit c # fmt) str vals =
    (if c \<noteq> cur str then vals else vsscanf fmt (tl str) vals)"
| "vsscanf (ConvD w # fmt) str vals =
    (case conv_d w str of
       None \<Rightarrow> vals
     | Some (v, next) \<Rightarrow> vsscanf fmt next (vals @ [v]))"

text \<open>The format \<^verbatim>\<open>"%04d-%02d-%d %d:%d:%d"\<close>.\<close>

definition date_format :: "directive list" where
  "date_format =
    [ConvD (Some 4), Lit CHR ''-'', ConvD (Some 2), Lit CHR ''-'', ConvD None, Spaces,
     ConvD None, Lit CHR '':'', ConvD None, Lit CHR '':'', ConvD None]"

text \<open>
  \<^verbatim>\<open>sscanf(date_str, ..., &date.tm_year, &date.tm_mon, &date.tm_mday, &date.tm_hour,
  &date.tm_min, &date.tm_sec)\<close>: the \<open>k\<close> values converted go to the first \<open>k\<close>
  arguments; the other fields keep what they held.
\<close>

definition arg :: "int list \<Rightarrow> nat \<Rightarrow> int \<Rightarrow> int" where
  "arg vals k old = (if k < length vals then vals ! k else old)"

definition sscanf_date :: "string \<Rightarrow> rtc_time \<Rightarrow> rtc_time" where
  "sscanf_date str date =
    (let vals = vsscanf date_format str []
     in date\<lparr>tm_year := arg vals 0 (tm_year date), tm_mon := arg vals 1 (tm_mon date),
             tm_mday := arg vals 2 (tm_mday date), tm_hour := arg vals 3 (tm_hour date),
             tm_min := arg vals 4 (tm_min date), tm_sec := arg vals 5 (tm_sec date)\<rparr>)"

subsection \<open>The device file\<close>

text \<open>
  \<^verbatim>\<open>copy_to_user\<close> and \<^verbatim>\<open>copy_from_user\<close> return the number of bytes they could not
  copy. The user's buffer is modelled by one flag, whether its memory can be accessed;
  a copy of no bytes cannot fail.
\<close>

definition copy_user :: "bool \<Rightarrow> nat \<Rightarrow> nat" where
  "copy_user accessible n = (if accessible then 0 else n)"

text \<open>
  \<^verbatim>\<open>ds3231_dev_read\<close> (lines 311-346). \<open>date0\<close> is the content of the local \<^verbatim>\<open>struct rtc_time date\<close>
  on entry, which the source does not initialise; \<open>offset\<close> is \<^verbatim>\<open>*offset\<close>, the file
  position of the open file. The result is the return value, the bytes copied to the
  user's buffer, the new \<^verbatim>\<open>*offset\<close>, and the bus.
\<close>

definition ds3231_dev_read ::
    "rtc_time \<Rightarrow> bool \<Rightarrow> nat \<Rightarrow> int \<Rightarrow> i2c_bus \<Rightarrow> int \<times> string \<times> int \<times> i2c_bus" where
  "ds3231_dev_read date0 accessible count offset bus =
    (if offset \<noteq> 0 then (0, [], 0, bus)
     else
       let (ret, date, bus') = ds3231_read_date date0 bus
       in if ret < 0 then (- EIO, [], offset, bus')
          else
            let date_str = scnprintf_date 64 date;
                written = length date_str;
                written' = (if written > count then count else written)
            in if copy_user accessible written' \<noteq> 0 then (- EFAULT, [], offset, bus')
               else (int written', take written' date_str, 1, bus'))"

text \<open>
  The layout test of \<^verbatim>\<open>ds3231_dev_write\<close> (lines 370-371): a chain of \<^verbatim>\<open>&&\<close>, which stops at the first
  comparison that fails. \<open>mem\<close> is the memory from the start of \<^verbatim>\<open>date_str\<close> on
  (behind the bytes that are modelled it reads as NUL). The result is the verdict and
  the indices of \<^verbatim>\<open>date_str\<close> that were read.
\<close>

definition peek :: "string \<Rightarrow> nat \<Rightarrow> char" where
  "peek mem i = (if i < length mem then mem ! i else CHR 0x00)"

fun layout_check :: "string \<Rightarrow> (nat \<times> char) list \<Rightarrow> bool \<times> nat list" where
  "layout_check mem [] = (True, [])"
| "layout_check mem ((i, c) # rest) =
    (if peek mem i = c
     then (let (ok, reads) = layout_check mem rest in (ok, i # reads))
     else (False, [i]))"

definition date_layout :: "(nat \<times> char) list" where
  "date_layout =
    [(4, CHR ''-''), (7, CHR ''-''), (10, CHR '' ''), (13, CHR '':''), (16, CHR '':'')]"

text \<open>
  The statements of \<^verbatim>\<open>ds3231_dev_write\<close> from \<^verbatim>\<open>sscanf\<close> to \<^verbatim>\<open>date.tm_year -= 1900\<close>
  (lines 377-383).
\<close>

definition parse_date :: "string \<Rightarrow> rtc_time \<Rightarrow> rtc_time" where
  "parse_date mem date0 =
    (let date = sscanf_date mem date0;
         date' = date\<lparr>tm_mon := s32_of_int (tm_mon date - 1)\<rparr>
     in date'\<lparr>tm_year := s32_of_int (tm_year date' - 1900)\<rparr>)"

text \<open>
  \<^verbatim>\<open>ds3231_dev_write\<close> (lines 352-399). \<open>ubuf\<close> holds the \<open>count\<close> bytes at the user's pointer.
  \<^verbatim>\<open>char date_str[count]\<close> has room for exactly these bytes and no terminating NUL,
  so an index from \<open>count\<close> on, and a string scan that runs past \<open>count\<close>
  characters, reads what lies behind the array on the stack: \<open>stack\<close>. \<open>date0\<close> is
  the content of the uninitialised local \<^verbatim>\<open>date\<close>. The result is the return value
  and the bus.
\<close>

definition ds3231_dev_write ::
    "rtc_time \<Rightarrow> string \<Rightarrow> bool \<Rightarrow> string \<Rightarrow> i2c_bus \<Rightarrow> int \<times> i2c_bus" where
  "ds3231_dev_write date0 stack accessible ubuf bus =
    (let count = length ubuf
     in if count > 20 then (- EINVAL, bus)
        else if copy_user accessible count \<noteq> 0 then (- EINVAL, bus)
        else
          let date_str = ubuf @ stack
          in if \<not> fst (layout_check date_str date_layout) then (- EINVAL, bus)
             else
               let date = parse_date date_str date0;
                   ret = s32_of_u32 (ds3231_check_date date)
               in if ret \<noteq> 0 then (ret, bus)
                  else
                    let (ret', bus') = ds3231_write_date date bus
                    in if ret' \<noteq> 0 then (ret', bus') else (int count, bus'))"

text \<open>
  \<^verbatim>\<open>ds3231_dev_ioctl\<close> (lines 405-458). \<open>uarg\<close> is the \<^verbatim>\<open>struct rtc_time\<close> at the user's pointer
  \<open>arg\<close>, or \<open>None\<close> when that memory cannot be accessed. The result is the return
  value, the struct copied to the user (if any), and the bus.
\<close>

datatype ioctl_cmd = RTC_RD_TIME | RTC_SET_TIME | RTC_UIE_ON | RTC_UIE_OFF | Other_cmd nat

definition zero_time :: rtc_time where
  "zero_time = \<lparr>tm_sec = 0, tm_min = 0, tm_hour = 0, tm_mday = 0, tm_mon = 0, tm_year = 0,
                 tm_wday = 0, tm_yday = 0, tm_isdst = 0\<rparr>"

fun ds3231_dev_ioctl ::
    "ioctl_cmd \<Rightarrow> rtc_time option \<Rightarrow> i2c_bus \<Rightarrow> int \<times> rtc_time option \<times> i2c_bus" where
  "ds3231_dev_ioctl RTC_RD_TIME uarg bus =
    (let (ret, date, bus') = ds3231_read_date zero_time bus
     in if ret < 0 then (- EIO, None, bus')
        else if uarg = None then (- EINVAL, None, bus')
        else (0, Some date, bus'))"
| "ds3231_dev_ioctl RTC_SET_TIME uarg bus =
    (case uarg of
       None \<Rightarrow> (- EINVAL, None, bus)
     | Some date \<Rightarrow>
         let ret = s32_of_u32 (ds3231_check_date date)
         in if ret \<noteq> 0 then (ret, None, bus)
            else
              let (ret', bus') = ds3231_write_date date bus
              in if ret' \<noteq> 0 then (ret', None, bus') else (0, None, bus'))"
| "ds3231_dev_ioctl RTC_UIE_ON uarg bus = (0, None, bus)"
| "ds3231_dev_ioctl RTC_UIE_OFF uarg bus = (0, None, bus)"
| "ds3231_dev_ioctl (Other_cmd c) uarg bus = (- 1, None, bus)"

subsection \<open>The specification's validator\<close>

text \<open>
  The validity rule as the specification words it, on the calendar values it names:
  second, minute, hour, day, month (1..12) and the four-digit year. It is compared
  with \<open>ds3231_check_date\<close> below.
\<close>

definition spec_days_in_month :: "int \<Rightarrow> int \<Rightarrow> int" where
  "spec_days_in_month month year =
    (if month \<in> {1, 3, 5, 7, 8, 10, 12} then 31
     else if month \<in> {4, 6, 9, 11} then 30
     else if (year mod 4 = 0 \<and> year mod 100 \<noteq> 0) \<or> year mod 400 = 0 then 29 else 28)"

definition spec_valid :: "int \<Rightarrow> int \<Rightarrow> int \<Rightarrow> int \<Rightarrow> int \<Rightarrow> int \<Rightarrow> bool" where
  "spec_valid second minute hour day month year =
    (0 \<le> second \<and> second \<le> 59 \<and> 0 \<le> minute \<and> minute \<le> 59 \<and> 0 \<le> hour \<and> hour \<le> 23
     \<and> 2000 \<le> year \<and> year \<le> 2199 \<and> 1 \<le> month \<and> month \<le> 12
     \<and> 1 \<le> day \<and> day \<le> spec_days_in_month month year)"

text \<open>The four range tests that \<open>ds3231_check_date\<close> makes before its \<^verbatim>\<open>switch\<close>.\<close>

definition in_range :: "rtc_time \<Rightarrow> bool" where
  "in_range date =
    (0 \<le> tm_sec date \<and> tm_sec date \<le> 59 \<and> 0 \<le> tm_min date \<and> tm_min date \<le> 59
     \<and> 0 \<le> tm_hour date \<and> tm_hour date \<le> 23 \<and> 100 \<le> tm_year date \<and> tm_year date \<le> 299)"

text \<open>A \<^verbatim>\<open>struct rtc_time\<close> with the six calendar fields given and the others zero.\<close>

definition mk_time :: "int \<Rightarrow> int \<Rightarrow> int \<Rightarrow> int \<Rightarrow> int \<Rightarrow> int \<Rightarrow> rtc_time" where
  "mk_time sec mn hour mday mon year =
    \<lparr>tm_sec = sec, tm_min = mn, tm_hour = hour, tm_mday = mday, tm_mon = mon, tm_year = year,
     tm_wday = 0, tm_yday = 0, tm_isdst = 0\<rparr>"

subsection \<open>The specification's text format\<close>

text \<open>
  \<^verbatim>\<open>DD.MM.YYYY HH:MM:SS\n\<close> as the specification words it: two digits for day, month,
  hour, minute and second, four for the year, each padded with zeros, and a line feed.
  It is compared below with what \<open>ds3231_dev_read\<close> copies to the user.
\<close>

definition two_digits :: "int \<Rightarrow> string" where
  "two_digits n = [digit_char (nat n div 10 mod 10), digit_char (nat n mod 10)]"

definition four_digits :: "int \<Rightarrow> string" where
  "four_digits n =
    [digit_char (nat n div 1000 mod 10), digit_char (nat n div 100 mod 10),
     digit_char (nat n div 10 mod 10), digit_char (nat n mod 10)]"

definition spec_date_text :: "int \<Rightarrow> int \<Rightarrow> int \<Rightarrow> int \<Rightarrow> int \<Rightarrow> int \<Rightarrow> string" where
  "spec_date_text day month year hour minute second =
     two_digits day @ ''.'' @ two_digits month @ ''.'' @ four_digits year @ '' ''
     @ two_digits hour @ '':'' @ two_digits minute @ '':'' @ two_digits second @ [CHR 0x0A]"

text \<open>
  \<^verbatim>\<open>ds3231_dev_open\<close> and \<^verbatim>\<open>ds3231_dev_close\<close> only log and return 0. The file
  position that \<open>ds3231_dev_read\<close> gets through \<^verbatim>\<open>offset\<close> belongs to the open file,
  which the kernel creates with position 0.
\<close>

definition ds3231_dev_open :: int where
  "ds3231_dev_open = 0"

definition ds3231_dev_close :: int where
  "ds3231_dev_close = 0"

definition open_offset :: int where
  "open_offset = 0"

subsection \<open>Sample buses\<close>

text \<open>
  A chip whose registers 0, 1, ... hold the given bytes (the others 0), behind an adapter
  with the given fault behaviour, before the driver has done anything.
\<close>

definition chip :: "u8 list \<Rightarrow> (event list \<Rightarrow> int) \<Rightarrow> i2c_bus" where
  "chip bytes e =
    \<lparr>regs = (\<lambda>a. if unat a < length bytes then bytes ! unat a else 0), errs = e, trace = []\<rparr>"



fun is_transfer :: "event \<Rightarrow> bool" where
  "is_transfer (RdByte a) = True"
| "is_transfer (WrByte a v) = True"
| "is_transfer Lock = False"
| "is_transfer Unlock = False"

text \<open>An adapter that never fails, and one whose first \<open>n\<close> transfers succeed and all later ones fail.\<close>

definition no_faults :: "event list \<Rightarrow> int" where
  "no_faults h = 0"

definition fails_after :: "nat \<Rightarrow> event list \<Rightarrow> int" where
  "fails_after n h = (if n \<le> length (filter is_transfer h) then - EIO else 0)"

text \<open>
  Register contents for 2099-12-31 23:59:59 and for 2023-07-05 09:02:07, both in
  24-hour mode, and the time 2024-03-15 12:30:45.
\<close>

definition regs_2099 :: "u8 list" where
  "regs_2099 = [0x59, 0x59, 0x23, 0x07, 0x31, 0x12, 0x99]"

definition regs_2023 :: "u8 list" where
  "regs_2023 = [0x07, 0x02, 0x09, 0x03, 0x05, 0x07, 0x23]"

definition time_2024 :: rtc_time where
  "time_2024 = mk_time 45 30 12 15 2 124"

subsection \<open>Lock discipline on a history\<close>









section \<open>Properties\<close>

lemmas ds3231_regs =
  DS3231_REG_SECONDS_def DS3231_REG_MINUTES_def DS3231_REG_HOURS_def DS3231_REG_DAY_def
  DS3231_REG_DATE_def DS3231_REG_MONTH_def DS3231_REG_YEAR_def DS3231_BIT_12H_def
  DS3231_BIT_nAM_def DS3231_BIT_CENTURY_def

subsection \<open>The validator\<close>

lemma check_fail_simps:
  "check_fail \<noteq> 0" "s32_of_u32 check_fail = - EINVAL" "s32_of_u32 0 = 0"
  by (simp_all add: check_fail_def EINVAL_def s32_of_u32_def)

lemma curr_year_in_range:
  "100 \<le> tm_year date \<Longrightarrow> tm_year date \<le> 299 \<Longrightarrow> int (curr_year date) = tm_year date + 1900"
  by (simp add: curr_year_def)

lemma nat_mod_int: "int n = k \<Longrightarrow> (n mod m = 0) = (k mod int m = 0)"
  by (metis of_nat_eq_0_iff zmod_int)

lemma mon_cases:
  fixes m :: int
  shows "m < 0 \<or> 11 < m \<or> m = 0 \<or> m = 1 \<or> m = 2 \<or> m = 3 \<or> m = 4 \<or> m = 5
    \<or> m = 6 \<or> m = 7 \<or> m = 8 \<or> m = 9 \<or> m = 10 \<or> m = 11"
  by arith

lemma check_out_of_range: "\<not> in_range date \<Longrightarrow> ds3231_check_date date = check_fail"
  unfolding in_range_def ds3231_check_date_def
  by (simp only: if_P if_not_P de_Morgan_conj not_le split: if_splits) auto

lemma check_in_range:
  assumes "in_range date"
  shows "(ds3231_check_date date = 0) =
     (1 \<le> tm_mon date + 1 \<and> tm_mon date + 1 \<le> 12 \<and> 1 \<le> tm_mday date
      \<and> tm_mday date \<le> spec_days_in_month (tm_mon date + 1) (tm_year date + 1900))"
proof -
  have r: "0 \<le> tm_sec date" "tm_sec date \<le> 59" "0 \<le> tm_min date" "tm_min date \<le> 59"
    "0 \<le> tm_hour date" "tm_hour date \<le> 23" "100 \<le> tm_year date" "tm_year date \<le> 299"
    using assms by (simp_all add: in_range_def)
  have cy: "int (curr_year date) = tm_year date + 1900"
    using r by (simp add: curr_year_in_range)
  have m4: "(curr_year date mod 4 = 0) = ((tm_year date + 1900) mod 4 = 0)"
    using nat_mod_int [OF cy, of 4] by simp
  have m100: "(curr_year date mod 100 = 0) = ((tm_year date + 1900) mod 100 = 0)"
    using nat_mod_int [OF cy, of 100] by simp
  have m400: "(curr_year date mod 400 = 0) = ((tm_year date + 1900) mod 400 = 0)"
    using nat_mod_int [OF cy, of 400] by simp
  have guards:
    "\<not> (tm_sec date < 0 \<or> tm_sec date > 59)" "\<not> (tm_min date < 0 \<or> tm_min date > 59)"
    "\<not> (tm_hour date < 0 \<or> tm_hour date > 23)" "\<not> (tm_year date < 100 \<or> tm_year date > 299)"
    using r by simp_all
  note defs = ds3231_check_date_def spec_days_in_month_def check_fail_simps m4 m100 m400 guards
  from mon_cases [of "tm_mon date"] show ?thesis
    by (elim disjE) (simp_all add: defs)
qed

lemma check_date_iff:
  "(ds3231_check_date date = 0) =
     spec_valid (tm_sec date) (tm_min date) (tm_hour date) (tm_mday date)
                (tm_mon date + 1) (tm_year date + 1900)"
proof (cases "in_range date")
  case True
  then show ?thesis
    by (simp add: check_in_range) (simp add: spec_valid_def in_range_def)
next
  case False
  then have "ds3231_check_date date \<noteq> 0"
    by (simp add: check_out_of_range check_fail_simps)
  moreover have "\<not> spec_valid (tm_sec date) (tm_min date) (tm_hour date) (tm_mday date)
                (tm_mon date + 1) (tm_year date + 1900)"
    using False unfolding spec_valid_def in_range_def by linarith
  ultimately show ?thesis by simp
qed

lemma check_date_values: "ds3231_check_date date = 0 \<or> ds3231_check_date date = check_fail"
  by (simp add: ds3231_check_date_def)

lemma check_date_s32:
  "s32_of_u32 (ds3231_check_date date) = (if ds3231_check_date date = 0 then 0 else - EINVAL)"
  using check_date_values [of date] by (auto simp: check_fail_simps)

text \<open>
  C4. \<open>ds3231_check_date\<close> returns success (0) exactly for the calendar values the
  specification calls valid: second and minute in 0..59, hour in 0..23, year in
  2000..2199, month in 1..12 and day between 1 and the number of days of that month
  (February by the leap-year rule); for every other value the callers see
  \<^verbatim>\<open>-EINVAL\<close>. The month of the specification is \<open>tm_mon + 1\<close>, its year
  \<open>tm_year + 1900\<close>.
\<close>

theorem ds3231_check_date_correct:
  "(ds3231_check_date date = 0) =
      spec_valid (tm_sec date) (tm_min date) (tm_hour date) (tm_mday date)
                 (tm_mon date + 1) (tm_year date + 1900)
   \<and> s32_of_u32 (ds3231_check_date date) =
      (if spec_valid (tm_sec date) (tm_min date) (tm_hour date) (tm_mday date)
                     (tm_mon date + 1) (tm_year date + 1900)
       then 0 else - EINVAL)"
  using check_date_iff [of date] check_date_s32 [of date] by simp

text \<open>
  The theorem at the boundary values: 2024-03-15 12:30:45 and 29 February of 2000 and
  2024 are accepted; second 60, hour 24, the years 1999 and 2200, 29 February of 2023
  and 2100, 32 January and 31 April are rejected.
\<close>

theorem ds3231_check_date_correct_witness:
  "ds3231_check_date (mk_time 45 30 12 15 2 124) = 0
   \<and> ds3231_check_date (mk_time 59 59 23 29 1 100) = 0
   \<and> ds3231_check_date (mk_time 0 0 0 29 1 124) = 0
   \<and> ds3231_check_date (mk_time 0 0 0 31 11 299) = 0
   \<and> ds3231_check_date (mk_time 60 30 12 15 2 124) \<noteq> 0
   \<and> ds3231_check_date (mk_time 45 30 24 15 2 124) \<noteq> 0
   \<and> ds3231_check_date (mk_time 45 30 12 15 2 99) \<noteq> 0
   \<and> ds3231_check_date (mk_time 45 30 12 15 2 300) \<noteq> 0
   \<and> ds3231_check_date (mk_time 0 0 0 29 1 123) \<noteq> 0
   \<and> ds3231_check_date (mk_time 0 0 0 29 1 200) \<noteq> 0
   \<and> ds3231_check_date (mk_time 0 0 0 32 0 124) \<noteq> 0
   \<and> ds3231_check_date (mk_time 0 0 0 31 3 124) \<noteq> 0
   \<and> s32_of_u32 (ds3231_check_date (mk_time 60 30 12 15 2 124)) = - 22"
  using ds3231_check_date_correct [of "mk_time 45 30 12 15 2 124"]
    ds3231_check_date_correct [of "mk_time 59 59 23 29 1 100"]
    ds3231_check_date_correct [of "mk_time 0 0 0 29 1 124"]
    ds3231_check_date_correct [of "mk_time 0 0 0 31 11 299"]
    ds3231_check_date_correct [of "mk_time 60 30 12 15 2 124"]
    ds3231_check_date_correct [of "mk_time 45 30 24 15 2 124"]
    ds3231_check_date_correct [of "mk_time 45 30 12 15 2 99"]
    ds3231_check_date_correct [of "mk_time 45 30 12 15 2 300"]
    ds3231_check_date_correct [of "mk_time 0 0 0 29 1 123"]
    ds3231_check_date_correct [of "mk_time 0 0 0 29 1 200"]
    ds3231_check_date_correct [of "mk_time 0 0 0 32 0 124"]
    ds3231_check_date_correct [of "mk_time 0 0 0 31 3 124"]
  by (simp add: mk_time_def spec_valid_def spec_days_in_month_def EINVAL_def)

subsection \<open>The register codec\<close>

text \<open>A property of all 256 byte values follows from checking each of them.\<close>

lemma u8_cases:
  assumes "\<forall>n\<in>set [0..<256]. P (word_of_nat n :: u8)"
  shows "P w"
proof -
  have "unat w < 256" using unsigned_less [of w, where ?'a = nat] by simp
  then have "unat w \<in> set [0..<256]" by simp
  with assms have "P (word_of_nat (unat w))" by (rule bspec)
  then show ?thesis by simp
qed

lemma bcd_all: "\<forall>n\<in>set [0..<100]. bcd2bin (bin2bcd n) = n"
  by code_simp

lemma bcd_roundtrip: "n < 100 \<Longrightarrow> bcd2bin (bin2bcd n) = n"
  using bcd_all by simp

lemma hours_bits:
  fixes h :: u8
  shows "h AND 0x80 = 0 \<longrightarrow>
       (h AND 0x40 = 0 \<longrightarrow> h AND NOT 0x3f = 0)
     \<and> (h AND 0x40 \<noteq> 0 \<longrightarrow> (h OR 0x20) AND NOT 0x1f = 0x60 \<and> (h AND NOT 0x20) AND NOT 0x1f = 0x40)"
  by (rule u8_cases [where w = h]) code_simp

lemma month_bits:
  fixes m :: u8
  shows "m AND 0x60 = 0 \<longrightarrow> m AND NOT 0x9f = 0"
  by (rule u8_cases [where w = m]) code_simp

lemma u8_of_int_nat: "0 \<le> k \<Longrightarrow> u8_of_int k = word_of_nat (nat k)"
  unfolding u8_of_int_def by (rule word_of_int_nat)

lemma masks_all:
  "\<forall>n\<in>set [0..<100]. unat (word_of_nat n :: u8) = n \<and> unat ((word_of_nat n :: u8) AND 0xff) = n"
  "\<forall>n\<in>set [0..<64]. unat ((word_of_nat n :: u8) AND 0x3f) = n"
  "\<forall>n\<in>set [0..<32]. unat ((word_of_nat n :: u8) AND 0x1f) = n"
  by code_simp+

lemma u8_lt100:
  assumes "0 \<le> k" "k < 100"
  shows "unat (u8_of_int k) = nat k" "unat (u8_of_int k AND 0xff) = nat k"
proof -
  have "nat k \<in> set [0..<100]" using assms by simp
  with masks_all(1) have "unat (word_of_nat (nat k) :: u8) = nat k
      \<and> unat ((word_of_nat (nat k) :: u8) AND 0xff) = nat k"
    by (rule bspec)
  then show "unat (u8_of_int k) = nat k" "unat (u8_of_int k AND 0xff) = nat k"
    by (simp_all only: u8_of_int_nat [OF assms(1)])
qed

lemma u8_lt64:
  assumes "0 \<le> k" "k < 64"
  shows "unat (u8_of_int k AND 0x3f) = nat k"
proof -
  have "nat k \<in> set [0..<64]" using assms by simp
  with masks_all(2) have "unat ((word_of_nat (nat k) :: u8) AND 0x3f) = nat k"
    by (rule bspec)
  then show ?thesis by (simp only: u8_of_int_nat [OF assms(1)])
qed

lemma u8_lt32:
  assumes "0 \<le> k" "k < 32"
  shows "unat (u8_of_int k AND 0x1f) = nat k"
proof -
  have "nat k \<in> set [0..<32]" using assms by simp
  with masks_all(3) have "unat ((word_of_nat (nat k) :: u8) AND 0x1f) = nat k"
    by (rule bspec)
  then show ?thesis by (simp only: u8_of_int_nat [OF assms(1)])
qed

lemma encode_nth:
  assumes "length rg = 7"
  shows "ds3231_encode date rg ! 0 = bin2bcd (unat (u8_of_int (tm_sec date)))"
    and "ds3231_encode date rg ! 1 = bin2bcd (unat (u8_of_int (tm_min date)))"
    and "ds3231_encode date rg ! 2 =
          (if rg ! 2 AND 0x40 \<noteq> 0 then
             (if tm_hour date \<ge> 12
              then ((rg ! 2 OR 0x20) AND NOT 0x1f) OR bin2bcd (unat (u8_of_int (tm_hour date - 12) AND 0x1f))
              else ((rg ! 2 AND NOT 0x20) AND NOT 0x1f) OR bin2bcd (unat (u8_of_int (tm_hour date) AND 0x1f)))
           else (rg ! 2 AND NOT 0x3f) OR bin2bcd (unat (u8_of_int (tm_hour date) AND 0x3f)))"
    and "ds3231_encode date rg ! 3 = rg ! 3"
    and "ds3231_encode date rg ! 4 = bin2bcd (unat (u8_of_int (tm_mday date) AND 0x3f))"
    and "ds3231_encode date rg ! 5 =
          (if tm_year date > 199
           then ((rg ! 5 AND NOT 0x9f) OR bin2bcd (unat (u8_of_int (tm_mon date + 1) AND 0x1f))) OR 0x80
           else (rg ! 5 AND NOT 0x9f) OR bin2bcd (unat (u8_of_int (tm_mon date + 1) AND 0x1f)))"
    and "ds3231_encode date rg ! 6 = bin2bcd (unat (u8_of_int (tm_year date smod 100) AND 0xff))"
    and "length (ds3231_encode date rg) = 7"
  using assms by (simp_all add: ds3231_encode_def Let_def ds3231_regs split: prod.splits)

lemma decode_ok:
  assumes "rg ! 5 AND 0x80 = 0"
  shows "ds3231_decode rg d0 =
    (0, d0\<lparr>tm_sec := int (bcd2bin (rg ! 0)), tm_min := int (bcd2bin (rg ! 1)),
            tm_hour := int (if rg ! 2 AND 0x40 \<noteq> 0
                            then (if (rg ! 2 AND NOT 0x40) AND 0x20 \<noteq> 0
                                  then bcd2bin ((rg ! 2 AND NOT 0x40) AND NOT 0x20) + 12
                                  else bcd2bin (rg ! 2 AND NOT 0x40))
                            else bcd2bin (rg ! 2)),
            tm_mday := int (bcd2bin (rg ! 4)), tm_mon := int (bcd2bin (rg ! 5)) - 1,
            tm_year := int (bcd2bin (rg ! 6)) + 100\<rparr>)"
  using assms by (simp add: ds3231_decode_def Let_def ds3231_regs)

lemma bcd_hour24_all:
  "\<forall>n\<in>set [0..<24]. bin2bcd n AND 0x40 = 0"
  by code_simp

lemma bcd_hour12_all:
  "\<forall>n\<in>set [0..<12].
     (0x60 OR bin2bcd n) AND 0x40 \<noteq> 0
     \<and> ((0x60 OR bin2bcd n) AND NOT 0x40) AND 0x20 \<noteq> 0
     \<and> bcd2bin (((0x60 OR bin2bcd n) AND NOT 0x40) AND NOT 0x20) = n
     \<and> (0x40 OR bin2bcd n) AND 0x40 \<noteq> 0
     \<and> ((0x40 OR bin2bcd n) AND NOT 0x40) AND 0x20 = 0
     \<and> bcd2bin ((0x40 OR bin2bcd n) AND NOT 0x40) = n"
  by code_simp

lemma bcd_month_all:
  "\<forall>n\<in>set [0..<13]. bin2bcd n AND 0x80 = 0"
  by code_simp

lemma month_century_clear:
  fixes m :: u8
  shows "(m AND NOT 0x9f) AND 0x80 = 0"
  by (rule u8_cases [where w = m]) code_simp

lemma spec_days_le_31: "spec_days_in_month m y \<le> 31"
  by (simp add: spec_days_in_month_def)

lemma valid_ranges:
  assumes "ds3231_check_date t = 0"
  shows "0 \<le> tm_sec t" "tm_sec t \<le> 59" "0 \<le> tm_min t" "tm_min t \<le> 59"
    "0 \<le> tm_hour t" "tm_hour t \<le> 23" "1 \<le> tm_mday t" "tm_mday t \<le> 31"
    "0 \<le> tm_mon t" "tm_mon t \<le> 11" "100 \<le> tm_year t" "tm_year t \<le> 299"
  using assms spec_days_le_31 [of "tm_mon t + 1" "tm_year t + 1900"]
  unfolding check_date_iff spec_valid_def by linarith+

lemma decoded_hour:
  fixes h :: u8 and hour :: int
  assumes b7: "h AND 0x80 = 0" and r: "0 \<le> hour" "hour \<le> 23"
  defines "e \<equiv> (if h AND 0x40 \<noteq> 0 then
             (if hour \<ge> 12
              then ((h OR 0x20) AND NOT 0x1f) OR bin2bcd (unat (u8_of_int (hour - 12) AND 0x1f))
              else ((h AND NOT 0x20) AND NOT 0x1f) OR bin2bcd (unat (u8_of_int hour AND 0x1f)))
           else (h AND NOT 0x3f) OR bin2bcd (unat (u8_of_int hour AND 0x3f)))"
  shows "int (if e AND 0x40 \<noteq> 0
                then (if (e AND NOT 0x40) AND 0x20 \<noteq> 0
                      then bcd2bin ((e AND NOT 0x40) AND NOT 0x20) + 12
                      else bcd2bin (e AND NOT 0x40))
                else bcd2bin e) = hour"
proof (cases "h AND 0x40 = 0")
  case True
  have n: "nat hour \<in> set [0..<24]" using r by simp
  have e: "e = bin2bcd (nat hour)"
    using True hours_bits [of h] b7 r by (simp add: e_def u8_lt64)
  have "bin2bcd (nat hour) AND 0x40 = 0"
    using bcd_hour24_all n by (rule bspec)
  moreover have "bcd2bin (bin2bcd (nat hour)) = nat hour"
    using r by (simp add: bcd_roundtrip)
  ultimately show ?thesis using r by (simp add: e)
next
  case False
  show ?thesis
  proof (cases "hour \<ge> 12")
    case True
    have n: "nat (hour - 12) \<in> set [0..<12]" using r True by simp
    have e: "e = 0x60 OR bin2bcd (nat (hour - 12))"
      using True False hours_bits [of h] b7 r by (simp add: e_def u8_lt32)
    from bcd_hour12_all n
    have "(0x60 OR bin2bcd (nat (hour - 12))) AND 0x40 \<noteq> 0
     \<and> ((0x60 OR bin2bcd (nat (hour - 12))) AND NOT 0x40) AND 0x20 \<noteq> 0
     \<and> bcd2bin (((0x60 OR bin2bcd (nat (hour - 12))) AND NOT 0x40) AND NOT 0x20) = nat (hour - 12)
     \<and> (0x40 OR bin2bcd (nat (hour - 12))) AND 0x40 \<noteq> 0
     \<and> ((0x40 OR bin2bcd (nat (hour - 12))) AND NOT 0x40) AND 0x20 = 0
     \<and> bcd2bin ((0x40 OR bin2bcd (nat (hour - 12))) AND NOT 0x40) = nat (hour - 12)"
      by (rule bspec)
    then show ?thesis using True r unfolding e by simp
  next
    case am: False
    have n: "nat hour \<in> set [0..<12]" using r am by simp
    have e: "e = 0x40 OR bin2bcd (nat hour)"
      using am False hours_bits [of h] b7 r by (simp add: e_def u8_lt32)
    from bcd_hour12_all n
    have "(0x60 OR bin2bcd (nat hour)) AND 0x40 \<noteq> 0
     \<and> ((0x60 OR bin2bcd (nat hour)) AND NOT 0x40) AND 0x20 \<noteq> 0
     \<and> bcd2bin (((0x60 OR bin2bcd (nat hour)) AND NOT 0x40) AND NOT 0x20) = nat hour
     \<and> (0x40 OR bin2bcd (nat hour)) AND 0x40 \<noteq> 0
     \<and> ((0x40 OR bin2bcd (nat hour)) AND NOT 0x40) AND 0x20 = 0
     \<and> bcd2bin ((0x40 OR bin2bcd (nat hour)) AND NOT 0x40) = nat hour"
      by (rule bspec)
    then show ?thesis using am r unfolding e by simp
  qed
qed

lemma encoded_century_clear:
  assumes len: "length rg = 7" and v: "ds3231_check_date t = 0" and y: "tm_year t \<le> 199"
  shows "ds3231_encode t rg ! 5 AND 0x80 = 0"
proof -
  have n: "nat (tm_mon t + 1) \<in> set [0..<13]" using valid_ranges [OF v] by simp
  have "bin2bcd (nat (tm_mon t + 1)) AND 0x80 = 0"
    using bcd_month_all n by (rule bspec)
  moreover have "unat (u8_of_int (tm_mon t + 1) AND 0x1f) = nat (tm_mon t + 1)"
    using valid_ranges [OF v] by (simp add: u8_lt32)
  ultimately show ?thesis
    unfolding encode_nth(6) [OF len]
    using y month_century_clear [of "rg ! 5"] by (simp add: bit.conj_disj_distrib2)
qed

text \<open>
  C3 (as amended). Let \<open>t\<close> be a valid time with year in 2000..2099 and \<open>rg\<close> a
  7-byte register block whose hours byte has bit 7 clear. If \<open>rg\<close> is in 24-hour mode
  and bits 5 and 6 of its month byte are clear, decoding the block that \<open>ds3231_encode\<close>
  produces gives back seconds, minutes, hour, day, month and year of \<open>t\<close>. If \<open>rg\<close>
  is in 12-hour mode, decoding succeeds and the decoded hour is the 24-hour hour of \<open>t\<close>.
  (The encoder keeps bit 7 of the hours byte and bits 5 and 6 of the month byte as it
  found them, and the decoder reads them as part of the BCD value.)
\<close>

theorem codec_roundtrip:
  assumes len: "length rg = 7"
    and v: "ds3231_check_date t = 0"
    and y: "tm_year t \<le> 199"
    and b7: "rg ! DS3231_REG_HOURS AND 0x80 = 0"
  shows "(rg ! DS3231_REG_HOURS AND DS3231_BIT_12H = 0 \<and> rg ! DS3231_REG_MONTH AND 0x60 = 0 \<longrightarrow>
            ds3231_decode (ds3231_encode t rg) d0 =
              (0, d0\<lparr>tm_sec := tm_sec t, tm_min := tm_min t, tm_hour := tm_hour t,
                      tm_mday := tm_mday t, tm_mon := tm_mon t, tm_year := tm_year t\<rparr>))
       \<and> (rg ! DS3231_REG_HOURS AND DS3231_BIT_12H \<noteq> 0 \<longrightarrow>
            fst (ds3231_decode (ds3231_encode t rg) d0) = 0
            \<and> tm_hour (snd (ds3231_decode (ds3231_encode t rg) d0)) = tm_hour t)"
proof -
  note r = valid_ranges [OF v]
  note c = encoded_century_clear [OF len v y]
  have b7': "rg ! 2 AND 0x80 = 0" using b7 by (simp add: ds3231_regs)
  have hour: "int (if ds3231_encode t rg ! 2 AND 0x40 \<noteq> 0
                then (if (ds3231_encode t rg ! 2 AND NOT 0x40) AND 0x20 \<noteq> 0
                      then bcd2bin ((ds3231_encode t rg ! 2 AND NOT 0x40) AND NOT 0x20) + 12
                      else bcd2bin (ds3231_encode t rg ! 2 AND NOT 0x40))
                else bcd2bin (ds3231_encode t rg ! 2)) = tm_hour t"
    unfolding encode_nth(3) [OF len] using b7' r(5,6) by (rule decoded_hour)
  have sec: "int (bcd2bin (ds3231_encode t rg ! 0)) = tm_sec t"
    unfolding encode_nth(1) [OF len] using r by (simp add: u8_lt100 bcd_roundtrip)
  have mn: "int (bcd2bin (ds3231_encode t rg ! 1)) = tm_min t"
    unfolding encode_nth(2) [OF len] using r by (simp add: u8_lt100 bcd_roundtrip)
  have mday: "int (bcd2bin (ds3231_encode t rg ! 4)) = tm_mday t"
    unfolding encode_nth(5) [OF len] using r by (simp add: u8_lt64 bcd_roundtrip)
  have "tm_year t mod 100 = tm_year t - 100"
    using r(11) y by presburger
  then have "tm_year t smod 100 = tm_year t - 100"
    using r by (simp add: signed_modulo_int_def sgn_if)
  then have year: "int (bcd2bin (ds3231_encode t rg ! 6)) + 100 = tm_year t"
    unfolding encode_nth(7) [OF len] using r y by (simp add: u8_lt100 bcd_roundtrip)
  have mon: "int (bcd2bin (ds3231_encode t rg ! 5)) - 1 = tm_mon t"
    if "rg ! DS3231_REG_MONTH AND 0x60 = 0"
  proof -
    have "rg ! 5 AND NOT 0x9f = 0"
      using that month_bits [of "rg ! 5"] by (simp add: ds3231_regs)
    then show ?thesis
      unfolding encode_nth(6) [OF len] using r y by (simp add: u8_lt32 bcd_roundtrip)
  qed
  show ?thesis
    using hour sec mn mday year mon
    by (simp add: decode_ok [OF c])
qed

text \<open>
  The theorem at 2024-03-15 12:30:45, once over a block in 24-hour mode and once over a
  block in 12-hour mode.
\<close>

theorem codec_roundtrip_witness:
  "length [0x59, 0x59, 0x23, 0x07, 0x31, 0x12, 0x99 :: u8] = 7
   \<and> ds3231_check_date (mk_time 45 30 12 15 2 124) = 0
   \<and> [0x59, 0x59, 0x23, 0x07, 0x31, 0x12, 0x99 :: u8] ! DS3231_REG_HOURS AND DS3231_BIT_12H = 0
   \<and> ds3231_decode (ds3231_encode (mk_time 45 30 12 15 2 124)
                       [0x59, 0x59, 0x23, 0x07, 0x31, 0x12, 0x99]) zero_time
       = (0, mk_time 45 30 12 15 2 124)
   \<and> [0x59, 0x59, 0x71, 0x07, 0x31, 0x12, 0x99 :: u8] ! DS3231_REG_HOURS AND DS3231_BIT_12H \<noteq> 0
   \<and> tm_hour (snd (ds3231_decode (ds3231_encode (mk_time 45 30 12 15 2 124)
                       [0x59, 0x59, 0x71, 0x07, 0x31, 0x12, 0x99]) zero_time)) = 12"
  using codec_roundtrip [of "[0x59, 0x59, 0x23, 0x07, 0x31, 0x12, 0x99]" "mk_time 45 30 12 15 2 124" zero_time]
    codec_roundtrip [of "[0x59, 0x59, 0x71, 0x07, 0x31, 0x12, 0x99]" "mk_time 45 30 12 15 2 124" zero_time]
    check_date_iff [of "mk_time 45 30 12 15 2 124"]
  by (simp add: mk_time_def zero_time_def ds3231_regs spec_valid_def spec_days_in_month_def)

text \<open>
  Without the condition on the unused bits the round trip fails: over a 24-hour block
  with bit 7 of the hours byte set the hour 12 comes back as 92; over a 24-hour block
  with bit 5 of the month byte set March (\<open>tm_mon = 2\<close>) comes back as \<open>tm_mon = 22\<close>;
  over a 12-hour block with bit 7 of the hours byte set the hour 12 comes back as 92.
\<close>

theorem codec_roundtrip_counterexample:
  "ds3231_check_date (mk_time 45 30 12 15 2 124) = 0
   \<and> [0, 0, 0x80, 0, 0, 0, 0 :: u8] ! DS3231_REG_HOURS AND DS3231_BIT_12H = 0
   \<and> tm_hour (snd (ds3231_decode (ds3231_encode (mk_time 45 30 12 15 2 124)
                       [0, 0, 0x80, 0, 0, 0, 0]) zero_time)) = 92
   \<and> [0, 0, 0, 0, 0, 0x20, 0 :: u8] ! DS3231_REG_HOURS AND DS3231_BIT_12H = 0
   \<and> tm_mon (snd (ds3231_decode (ds3231_encode (mk_time 45 30 12 15 2 124)
                       [0, 0, 0, 0, 0, 0x20, 0]) zero_time)) = 22
   \<and> [0, 0, 0xC0, 0, 0, 0, 0 :: u8] ! DS3231_REG_HOURS AND DS3231_BIT_12H \<noteq> 0
   \<and> tm_hour (snd (ds3231_decode (ds3231_encode (mk_time 45 30 12 15 2 124)
                       [0, 0, 0xC0, 0, 0, 0, 0]) zero_time)) = 92"
  by code_simp

subsection \<open>The bus history of the block transfers\<close>





subsection \<open>Evaluation on the sample buses\<close>

lemmas bus_defs = chip_def fails_after_def no_faults_def
  ds3231_read_block_data_def ds3231_write_block_data_def
  mutex_lock_def mutex_unlock_def i2c_smbus_read_byte_data_def i2c_smbus_write_byte_data_def
  EIO_def Let_def

lemma chip_regs:
  "regs (chip [a, b, c, d, e, f, g] x) 0 = a" "regs (chip [a, b, c, d, e, f, g] x) 1 = b"
  "regs (chip [a, b, c, d, e, f, g] x) 2 = c" "regs (chip [a, b, c, d, e, f, g] x) 3 = d"
  "regs (chip [a, b, c, d, e, f, g] x) 4 = e" "regs (chip [a, b, c, d, e, f, g] x) 5 = f"
  "regs (chip [a, b, c, d, e, f, g] x) 6 = g"
  "errs (chip bytes x) = x" "trace (chip bytes x) = []"
  by (simp_all add: chip_def)

lemma read_block_ok:
  "errs bus = no_faults \<Longrightarrow>
   ds3231_read_block_data 0 7 (mutex_lock bus) =
     (7, [regs bus 0, regs bus 1, regs bus 2, regs bus 3, regs bus 4, regs bus 5, regs bus 6],
      bus\<lparr>trace := trace bus @
        [Lock, RdByte 0, RdByte 1, RdByte 2, RdByte 3, RdByte 4, RdByte 5, RdByte 6]\<rparr>)"
  by (simp add: bus_defs)

lemma read_date_ok:
  assumes "errs bus = no_faults"
  shows "ds3231_read_date date0 bus =
     (fst (ds3231_decode
             [regs bus 0, regs bus 1, regs bus 2, regs bus 3, regs bus 4, regs bus 5, regs bus 6]
             date0),
      snd (ds3231_decode
             [regs bus 0, regs bus 1, regs bus 2, regs bus 3, regs bus 4, regs bus 5, regs bus 6]
             date0),
      bus\<lparr>trace := trace bus @
        [Lock, RdByte 0, RdByte 1, RdByte 2, RdByte 3, RdByte 4, RdByte 5, RdByte 6, Unlock]\<rparr>)"
  unfolding ds3231_read_date_def Let_def read_block_ok [OF assms]
  by (simp add: mutex_unlock_def split: prod.splits)

lemma encode_2024: "ds3231_encode time_2024 regs_2099 = [0x45, 0x30, 0x12, 0x07, 0x15, 0x03, 0x24]"
  by (simp add: ds3231_encode_def time_2024_def regs_2099_def mk_time_def ds3231_regs bin2bcd_def
      u8_of_int_def Let_def)

lemma write_date_2024_ok:
  "ds3231_write_date time_2024 (chip regs_2099 no_faults) =
    (0, (chip regs_2099 no_faults)
          \<lparr>regs := (regs (chip regs_2099 no_faults))
                     (0 := 0x45, 1 := 0x30, 2 := 0x12, 3 := 0x07, 4 := 0x15, 5 := 0x03, 6 := 0x24),
           trace := [Lock, RdByte 0, RdByte 1, RdByte 2, RdByte 3, RdByte 4, RdByte 5, RdByte 6,
                     Unlock, Lock, WrByte 0 0x45, WrByte 1 0x30, WrByte 2 0x12, WrByte 3 0x07,
                     WrByte 4 0x15, WrByte 5 0x03, WrByte 6 0x24, Unlock]\<rparr>)"
proof -
  have rd: "ds3231_read_block_data 0 7 (mutex_lock (chip regs_2099 no_faults)) =
      (7, regs_2099, (chip regs_2099 no_faults)
         \<lparr>trace := [Lock, RdByte 0, RdByte 1, RdByte 2, RdByte 3, RdByte 4, RdByte 5, RdByte 6]\<rparr>)"
    by (simp add: bus_defs regs_2099_def)
  show ?thesis
    unfolding ds3231_write_date_def Let_def rd
    by (simp add: encode_2024) (simp add: bus_defs)
qed

lemma write_date_2024_fail:
  "ds3231_write_date time_2024 (chip regs_2099 (fails_after 7)) =
    (0, (chip regs_2099 (fails_after 7))
          \<lparr>trace := [Lock, RdByte 0, RdByte 1, RdByte 2, RdByte 3, RdByte 4, RdByte 5, RdByte 6,
                     Unlock, Lock, WrByte 0 0x45, Unlock]\<rparr>)"
proof -
  have rd: "ds3231_read_block_data 0 7 (mutex_lock (chip regs_2099 (fails_after 7))) =
      (7, regs_2099, (chip regs_2099 (fails_after 7))
         \<lparr>trace := [Lock, RdByte 0, RdByte 1, RdByte 2, RdByte 3, RdByte 4, RdByte 5, RdByte 6]\<rparr>)"
    by (simp add: bus_defs regs_2099_def)
  show ?thesis
    unfolding ds3231_write_date_def Let_def rd
    by (simp add: encode_2024) (simp add: bus_defs)
qed

lemma time_2024_zero:
  "zero_time\<lparr>tm_sec := 45, tm_min := 30, tm_hour := 12, tm_mday := 15, tm_mon := 2, tm_year := 124\<rparr>
     = time_2024"
  by (simp add: zero_time_def time_2024_def mk_time_def)

lemma check_2024:
  "ds3231_check_date
     (date0\<lparr>tm_sec := 45, tm_min := 30, tm_hour := 12, tm_mday := 15, tm_mon := 2, tm_year := 124\<rparr>) = 0"
  by (simp add: ds3231_check_date_def)

lemma check_time_2024: "ds3231_check_date time_2024 = 0"
  using check_2024 [of zero_time] by (simp only: time_2024_zero)

lemma decode_2023:
  "ds3231_decode [0x07, 0x02, 0x09, 0x03, 0x05, 0x07, 0x23] date0 =
     (0, date0\<lparr>tm_sec := 7, tm_min := 2, tm_hour := 9, tm_mday := 5, tm_mon := 6, tm_year := 123\<rparr>)"
  by (simp add: ds3231_decode_def ds3231_regs bcd2bin_def Let_def)

lemma decode_non_bcd:
  "ds3231_decode [0xA7, 0x02, 0x09, 0x03, 0x05, 0x07, 0x23] date0 =
     (0, date0\<lparr>tm_sec := 107, tm_min := 2, tm_hour := 9, tm_mday := 5, tm_mon := 6, tm_year := 123\<rparr>)"
  by (simp add: ds3231_decode_def ds3231_regs bcd2bin_def Let_def)

lemma decode_century:
  "ds3231_decode [0x07, 0x02, 0x09, 0x03, 0x05, 0x87, 0x23] date0 = (22, date0\<lparr>tm_mday := 5\<rparr>)"
  by (simp add: ds3231_decode_def ds3231_regs bcd2bin_def Let_def EINVAL_def)

lemma read_date_2023:
  assumes "errs bus = no_faults" "regs bus = regs (chip regs_2023 no_faults)"
  shows "ds3231_read_date date0 bus =
    (0, date0\<lparr>tm_sec := 7, tm_min := 2, tm_hour := 9, tm_mday := 5, tm_mon := 6, tm_year := 123\<rparr>,
      bus\<lparr>trace := trace bus @
        [Lock, RdByte 0, RdByte 1, RdByte 2, RdByte 3, RdByte 4, RdByte 5, RdByte 6, Unlock]\<rparr>)"
  unfolding read_date_ok [OF assms(1)] assms(2) regs_2023_def chip_regs decode_2023
  by simp

subsection \<open>Locking in \<open>ds3231_write_date\<close>\<close>









subsection \<open>Text read\<close>

declare dec_digits.simps [simp del]

lemma dec_digits_lt10: "n < 10 \<Longrightarrow> dec_digits n = [digit_char n]"
  by (subst dec_digits.simps) simp

lemma digit_char_0: "digit_char 0 = CHR ''0''"
  by (simp add: digit_char_def)

lemma fmt_two:
  assumes "0 \<le> n" "n < 100"
  shows "fmt_0d 2 n = two_digits n"
proof (cases "nat n < 10")
  case True
  then show ?thesis using assms
    by (simp add: fmt_0d_def two_digits_def digit_char_0 dec_digits_lt10 numeral_2_eq_2)
next
  case False
  have b: "nat n div 10 < 10" using assms by arith
  then have "dec_digits (nat n) = [digit_char (nat n div 10), digit_char (nat n mod 10)]"
    using False by (subst dec_digits.simps) (simp add: dec_digits_lt10)
  then show ?thesis using assms False b by (simp add: fmt_0d_def two_digits_def)
qed

lemma fmt_four:
  assumes "1000 \<le> n" "n < 10000"
  shows "fmt_0d 4 n = four_digits n"
proof -
  define k where "k = nat n"
  have k: "1000 \<le> k" "k < 10000" using assms by (simp_all add: k_def)
  have b: "k div 1000 < 10" "\<not> k div 100 < 10" "\<not> k div 10 < 10" "\<not> k < 10"
    using k by arith+
  have e: "k div 100 div 10 = k div 1000" "k div 10 div 10 = k div 100"
    by (simp_all add: div_mult2_eq [symmetric])
  have d1: "dec_digits (k div 1000) = [digit_char (k div 1000)]"
    using b by (simp add: dec_digits_lt10)
  have d2: "dec_digits (k div 100) = [digit_char (k div 1000), digit_char (k div 100 mod 10)]"
    using b by (subst dec_digits.simps) (simp add: d1 e)
  have d3: "dec_digits (k div 10) =
      [digit_char (k div 1000), digit_char (k div 100 mod 10), digit_char (k div 10 mod 10)]"
    using b by (subst dec_digits.simps) (simp add: d2 e)
  have d4: "dec_digits k =
      [digit_char (k div 1000), digit_char (k div 100 mod 10), digit_char (k div 10 mod 10),
       digit_char (k mod 10)]"
    using b by (subst dec_digits.simps) (simp add: d3)
  have "k div 1000 mod 10 = k div 1000" using b by simp
  then show ?thesis
    using assms d4 by (simp add: fmt_0d_def four_digits_def k_def [symmetric])
qed

lemma fmt_107: "fmt_0d 2 107 = ''107''"
  by code_simp

lemma text_2023: "date_text (date0\<lparr>tm_sec := 7, tm_min := 2, tm_hour := 9, tm_mday := 5, tm_mon := 6, tm_year := 123\<rparr>)
   = ''05.07.2023 09:02:07'' @ [CHR 0x0A]"
  by (simp add: date_text_def s32_of_int_def fmt_two fmt_four two_digits_def four_digits_def
      digit_char_def)

lemma text_non_bcd: "date_text (date0\<lparr>tm_sec := 107, tm_min := 2, tm_hour := 9, tm_mday := 5, tm_mon := 6, tm_year := 123\<rparr>)
   = ''05.07.2023 09:02:107'' @ [CHR 0x0A]"
  by (simp add: date_text_def s32_of_int_def fmt_two fmt_four fmt_107 two_digits_def
      four_digits_def digit_char_def)

lemma text_century: "date_text (zero_time\<lparr>tm_mday := 5\<rparr>) = ''05.01.1900 00:00:00'' @ [CHR 0x0A]"
  by (simp add: zero_time_def date_text_def s32_of_int_def fmt_two fmt_four two_digits_def
      four_digits_def digit_char_def)

lemma s32_of_int_id: "- (2 ^ 31) \<le> v \<Longrightarrow> v < 2 ^ 31 \<Longrightarrow> s32_of_int v = v"
  by (simp add: s32_of_int_def)

lemma bcd2bin_le: "bcd2bin w \<le> 165"
  by (rule u8_cases [where w = w]) code_simp

lemma bcd2bin_month_le:
  fixes m :: u8
  shows "m AND 0x80 = 0 \<longrightarrow> bcd2bin m \<le> 85"
  by (rule u8_cases [where w = m]) code_simp

lemma decode_zero:
  assumes "ds3231_decode rg date0 = (0, date)"
  shows "rg ! 5 AND 0x80 = 0"
  using assms by (auto simp: ds3231_decode_def Let_def ds3231_regs EINVAL_def split: if_splits)

lemma decode_bounds:
  assumes "ds3231_decode rg date0 = (0, date)"
  shows "0 \<le> tm_sec date" "0 \<le> tm_min date" "0 \<le> tm_hour date" "0 \<le> tm_mday date"
    "0 \<le> tm_mon date + 1" "tm_mon date + 1 < 100"
    "1000 \<le> tm_year date + 1900" "tm_year date + 1900 < 10000"
proof -
  note c = decode_zero [OF assms]
  have d: "date = snd (ds3231_decode rg date0)" using assms by simp
  have m: "bcd2bin (rg ! 5) \<le> 85" using c bcd2bin_month_le by blast
  have y: "bcd2bin (rg ! 6) \<le> 165" by (rule bcd2bin_le)
  show "0 \<le> tm_sec date" "0 \<le> tm_min date" "0 \<le> tm_hour date" "0 \<le> tm_mday date"
    "0 \<le> tm_mon date + 1" "tm_mon date + 1 < 100"
    "1000 \<le> tm_year date + 1900" "tm_year date + 1900 < 10000"
    using m y unfolding d decode_ok [OF c] by simp_all
qed

lemma read_date_zero:
  assumes "ds3231_read_date date0 bus = (0, date, bus')"
  shows "\<exists>rg. ds3231_decode rg date0 = (0, date)"
  using assms
  by (auto simp: ds3231_read_date_def Let_def split: prod.splits if_splits)

lemma dev_read_2023:
  assumes "errs bus = no_faults" "regs bus = regs (chip regs_2023 no_faults)"
  shows "ds3231_dev_read date0 True count 0 bus =
    (int (min count 20), take count (''05.07.2023 09:02:07'' @ [CHR 0x0A]), 1,
      bus\<lparr>trace := trace bus @
        [Lock, RdByte 0, RdByte 1, RdByte 2, RdByte 3, RdByte 4, RdByte 5, RdByte 6, Unlock]\<rparr>)"
  by (simp add: ds3231_dev_read_def read_date_2023 [OF assms] scnprintf_date_def text_2023
      copy_user_def min_def)

text \<open>
  C7 (as amended). If \<open>ds3231_read_date\<close> succeeds and the decoded day, hour, minute
  and second are below 100 (what BCD registers give), a text read at the position of a
  freshly opened file, into an accessible buffer of \<open>count\<close> bytes, returns the first
  \<open>count\<close> bytes of \<^verbatim>\<open>DD.MM.YYYY HH:MM:SS\n\<close>, zero padded; that text has 20 bytes, so
  a buffer of at least 20 bytes receives exactly the whole of it. The month is
  \<open>tm_mon + 1\<close>, the year \<open>tm_year + 1900\<close>.
\<close>

theorem dev_read_text:
  assumes rd: "ds3231_read_date date0 bus = (0, date, bus')"
    and small: "tm_mday date < 100" "tm_hour date < 100" "tm_min date < 100" "tm_sec date < 100"
  shows "ds3231_dev_read date0 True count open_offset bus =
           (int (min count 20),
            take count (spec_date_text (tm_mday date) (tm_mon date + 1) (tm_year date + 1900)
                          (tm_hour date) (tm_min date) (tm_sec date)),
            1, bus')
         \<and> length (spec_date_text (tm_mday date) (tm_mon date + 1) (tm_year date + 1900)
                          (tm_hour date) (tm_min date) (tm_sec date)) = 20"
proof -
  from read_date_zero [OF rd] obtain rg where dec: "ds3231_decode rg date0 = (0, date)" ..
  note b = decode_bounds [OF dec]
  have tx: "date_text date = spec_date_text (tm_mday date) (tm_mon date + 1) (tm_year date + 1900)
                          (tm_hour date) (tm_min date) (tm_sec date)"
    using b small by (simp add: date_text_def spec_date_text_def fmt_two fmt_four s32_of_int_id)
  have len: "length (spec_date_text (tm_mday date) (tm_mon date + 1) (tm_year date + 1900)
                          (tm_hour date) (tm_min date) (tm_sec date)) = 20"
    by (simp add: spec_date_text_def two_digits_def four_digits_def)
  have "ds3231_dev_read date0 True count open_offset bus =
           (int (min count 20),
            take count (spec_date_text (tm_mday date) (tm_mon date + 1) (tm_year date + 1900)
                          (tm_hour date) (tm_min date) (tm_sec date)),
            1, bus')"
    using len
    by (simp add: ds3231_dev_read_def open_offset_def rd scnprintf_date_def tx copy_user_def min_def)
  with len show ?thesis by simp
qed

text \<open>
  The theorem on registers holding 2023-07-05 09:02:07: the text read gives
  \<^verbatim>\<open>05.07.2023 09:02:07\n\<close>.
\<close>

theorem dev_read_text_witness:
  "ds3231_read_date zero_time (chip regs_2023 no_faults) =
     (0, mk_time 7 2 9 5 6 123,
      (chip regs_2023 no_faults)
        \<lparr>trace := [Lock, RdByte 0, RdByte 1, RdByte 2, RdByte 3, RdByte 4, RdByte 5, RdByte 6,
                   Unlock]\<rparr>)
   \<and> ds3231_dev_read zero_time True 64 open_offset (chip regs_2023 no_faults) =
     (20, ''05.07.2023 09:02:07'' @ [CHR 0x0A], 1,
      (chip regs_2023 no_faults)
        \<lparr>trace := [Lock, RdByte 0, RdByte 1, RdByte 2, RdByte 3, RdByte 4, RdByte 5, RdByte 6,
                   Unlock]\<rparr>)"
  using dev_read_text [of zero_time "chip regs_2023 no_faults" "mk_time 7 2 9 5 6 123"
      "(chip regs_2023 no_faults)
        \<lparr>trace := [Lock, RdByte 0, RdByte 1, RdByte 2, RdByte 3, RdByte 4, RdByte 5, RdByte 6,
                   Unlock]\<rparr>" 64]
    read_date_2023 [of "chip regs_2023 no_faults" zero_time]
  by (simp add: chip_regs mk_time_def zero_time_def spec_date_text_def two_digits_def
      four_digits_def digit_char_def)

text \<open>
  The text is not always the fixed 20 bytes: a buffer of 5 bytes receives \<^verbatim>\<open>05.07\<close>,
  and a seconds register that is not BCD (\<open>0xA7\<close>, decoded as 107) gives a text of 21
  bytes.
\<close>

theorem dev_read_text_counterexample:
  "fst (ds3231_read_date zero_time (chip regs_2023 no_faults)) = 0
   \<and> fst (ds3231_dev_read zero_time True 5 open_offset (chip regs_2023 no_faults)) = 5
   \<and> fst (snd (ds3231_dev_read zero_time True 5 open_offset (chip regs_2023 no_faults)))
       = ''05.07''
   \<and> fst (ds3231_read_date zero_time
            (chip [0xA7, 0x02, 0x09, 0x03, 0x05, 0x07, 0x23] no_faults)) = 0
   \<and> fst (ds3231_dev_read zero_time True 64 open_offset
            (chip [0xA7, 0x02, 0x09, 0x03, 0x05, 0x07, 0x23] no_faults)) = 21
   \<and> fst (snd (ds3231_dev_read zero_time True 64 open_offset
            (chip [0xA7, 0x02, 0x09, 0x03, 0x05, 0x07, 0x23] no_faults)))
       = ''05.07.2023 09:02:107'' @ [CHR 0x0A]"
proof -
  have a: "ds3231_read_date zero_time (chip [0xA7, 0x02, 0x09, 0x03, 0x05, 0x07, 0x23] no_faults)
    = (0, zero_time\<lparr>tm_sec := 107, tm_min := 2, tm_hour := 9, tm_mday := 5, tm_mon := 6,
                     tm_year := 123\<rparr>,
       (chip [0xA7, 0x02, 0x09, 0x03, 0x05, 0x07, 0x23] no_faults)
        \<lparr>trace := [Lock, RdByte 0, RdByte 1, RdByte 2, RdByte 3, RdByte 4, RdByte 5, RdByte 6,
                   Unlock]\<rparr>)"
    unfolding read_date_ok [OF chip_regs(8)] chip_regs decode_non_bcd by simp
  have b: "ds3231_dev_read zero_time True 64 open_offset
            (chip [0xA7, 0x02, 0x09, 0x03, 0x05, 0x07, 0x23] no_faults)
    = (21, ''05.07.2023 09:02:107'' @ [CHR 0x0A], 1,
       (chip [0xA7, 0x02, 0x09, 0x03, 0x05, 0x07, 0x23] no_faults)
        \<lparr>trace := [Lock, RdByte 0, RdByte 1, RdByte 2, RdByte 3, RdByte 4, RdByte 5, RdByte 6,
                   Unlock]\<rparr>)"
    by (simp add: ds3231_dev_read_def open_offset_def a scnprintf_date_def text_non_bcd copy_user_def)
  show ?thesis
    unfolding a b
    by (simp add: read_date_2023 dev_read_2023 chip_regs open_offset_def)
qed

subsection \<open>Repeated reads\<close>

text \<open>
  C8 (as amended). After a successful read in a session, the next read returns zero
  bytes without touching the bus, and puts the file position back to that of a freshly
  opened file; so the read after that is a first read again.
\<close>

theorem dev_read_after_success:
  assumes first: "ds3231_dev_read d1 a1 c1 open_offset bus = (r1, out1, off1, bus1)"
    and ok: "0 \<le> r1"
  shows "ds3231_dev_read d2 a2 c2 off1 bus1 = (0, [], open_offset, bus1)
       \<and> ds3231_dev_read d3 a3 c3
            (fst (snd (snd (ds3231_dev_read d2 a2 c2 off1 bus1))))
            (snd (snd (snd (ds3231_dev_read d2 a2 c2 off1 bus1))))
          = ds3231_dev_read d3 a3 c3 open_offset bus1"
proof -
  have "off1 = 1"
    using first ok
    by (auto simp: ds3231_dev_read_def open_offset_def Let_def EIO_def EFAULT_def
        split: prod.splits if_splits)
  then have "ds3231_dev_read d2 a2 c2 off1 bus1 = (0, [], open_offset, bus1)"
    by (simp add: ds3231_dev_read_def open_offset_def)
  then show ?thesis by simp
qed

text \<open>The theorem after a first read of 2023-07-05 09:02:07.\<close>

theorem dev_read_after_success_witness:
  "ds3231_dev_read zero_time True 64 open_offset (chip regs_2023 no_faults) =
     (20, ''05.07.2023 09:02:07'' @ [CHR 0x0A], 1,
      (chip regs_2023 no_faults)
        \<lparr>trace := [Lock, RdByte 0, RdByte 1, RdByte 2, RdByte 3, RdByte 4, RdByte 5, RdByte 6,
                   Unlock]\<rparr>)
   \<and> ds3231_dev_read zero_time True 64 1
       ((chip regs_2023 no_faults)
        \<lparr>trace := [Lock, RdByte 0, RdByte 1, RdByte 2, RdByte 3, RdByte 4, RdByte 5, RdByte 6,
                   Unlock]\<rparr>)
     = (0, [], open_offset,
        (chip regs_2023 no_faults)
        \<lparr>trace := [Lock, RdByte 0, RdByte 1, RdByte 2, RdByte 3, RdByte 4, RdByte 5, RdByte 6,
                   Unlock]\<rparr>)"
  using dev_read_after_success [of zero_time True 64 "chip regs_2023 no_faults" 20
      "''05.07.2023 09:02:07'' @ [CHR 0x0A]" 1
      "(chip regs_2023 no_faults)
        \<lparr>trace := [Lock, RdByte 0, RdByte 1, RdByte 2, RdByte 3, RdByte 4, RdByte 5, RdByte 6,
                   Unlock]\<rparr>" zero_time True 64 zero_time True 64]
    dev_read_2023 [of "chip regs_2023 no_faults" zero_time 64]
  by (simp add: chip_regs open_offset_def)

text \<open>
  Three reads in one session: the first returns the time, the second nothing, the third
  returns the time a second time.
\<close>

theorem dev_read_repeat_counterexample:
  "(let (r1, out1, off1, bus1) =
          ds3231_dev_read zero_time True 64 open_offset (chip regs_2023 no_faults);
        (r2, out2, off2, bus2) = ds3231_dev_read zero_time True 64 off1 bus1;
        (r3, out3, off3, bus3) = ds3231_dev_read zero_time True 64 off2 bus2
    in r1 = 20 \<and> r2 = 0 \<and> out2 = [] \<and> r3 = 20 \<and> out3 = ''05.07.2023 09:02:07'' @ [CHR 0x0A])"
proof -
  have 1: "ds3231_dev_read zero_time True 64 open_offset (chip regs_2023 no_faults) =
     (20, ''05.07.2023 09:02:07'' @ [CHR 0x0A], 1,
      (chip regs_2023 no_faults)
        \<lparr>trace := [Lock, RdByte 0, RdByte 1, RdByte 2, RdByte 3, RdByte 4, RdByte 5, RdByte 6,
                   Unlock]\<rparr>)"
    by (simp add: dev_read_2023 chip_regs open_offset_def)
  have 2: "ds3231_dev_read zero_time True 64 1 b = (0, [], 0, b)" for b
    by (simp add: ds3231_dev_read_def)
  have 3: "fst (ds3231_dev_read zero_time True 64 0
      ((chip regs_2023 no_faults)
        \<lparr>trace := [Lock, RdByte 0, RdByte 1, RdByte 2, RdByte 3, RdByte 4, RdByte 5, RdByte 6,
                   Unlock]\<rparr>)) = 20
     \<and> fst (snd (ds3231_dev_read zero_time True 64 0
      ((chip regs_2023 no_faults)
        \<lparr>trace := [Lock, RdByte 0, RdByte 1, RdByte 2, RdByte 3, RdByte 4, RdByte 5, RdByte 6,
                   Unlock]\<rparr>))) = ''05.07.2023 09:02:07'' @ [CHR 0x0A]"
    by (simp add: dev_read_2023 chip_regs)
  show ?thesis
    unfolding 1 Let_def prod.case 2 using 3 by (simp add: split_beta)
qed

subsection \<open>Text write and the structured set\<close>

lemmas scan_defs = parse_date_def sscanf_date_def date_format_def conv_d_def cur_def isdigit_def
  isspace_def skip_spaces_def simple_strntoll_def simple_strntoull_def s32_of_int_def INT_MAX_def
  arg_def Let_def

lemma parse_2024:
  "parse_date (''2024-03-15 12:30:45'' @ CHR 0x0A # stack) date0 =
     date0\<lparr>tm_sec := 45, tm_min := 30, tm_hour := 12, tm_mday := 15, tm_mon := 2, tm_year := 124\<rparr>"
  by (simp add: scan_defs)

lemma layout_2024:
  "fst (layout_check (''2024-03-15 12:30:45'' @ c # stack) date_layout)"
  by (simp add: date_layout_def peek_def)

lemma dev_write_2024:
  "ds3231_dev_write date0 stack True (''2024-03-15 12:30:45'' @ [CHR 0x0A]) bus =
     (let (ret, bus') = ds3231_write_date
         (date0\<lparr>tm_sec := 45, tm_min := 30, tm_hour := 12, tm_mday := 15, tm_mon := 2,
                 tm_year := 124\<rparr>) bus
      in if ret \<noteq> 0 then (ret, bus') else (20, bus'))"
  using parse_2024 [of stack date0] layout_2024 [of "CHR 0x0A" stack]
  by (simp add: ds3231_dev_write_def copy_user_def check_2024 check_fail_simps EINVAL_def split: prod.splits)

lemma layout_check_fst:
  "fst (layout_check mem L) = (\<forall>(i, c)\<in>set L. peek mem i = c)"
  by (induction L) (auto split: prod.splits)

lemma layout_check_mismatch:
  assumes "(p, c) \<in> set L" "p < length ubuf" "ubuf ! p \<noteq> c"
  shows "\<not> fst (layout_check (ubuf @ stack) L)"
proof -
  have "peek (ubuf @ stack) p \<noteq> c"
    using assms by (simp add: peek_def nth_append)
  with assms(1) show ?thesis
    unfolding layout_check_fst by fastforce
qed

lemma dev_write_invalid:
  assumes "ds3231_check_date (parse_date (ubuf @ stack) date0) \<noteq> 0"
  shows "ds3231_dev_write date0 stack accessible ubuf bus = (- EINVAL, bus)"
  using assms by (simp add: ds3231_dev_write_def Let_def check_date_s32 EINVAL_def)

lemma ioctl_set_invalid:
  assumes "ds3231_check_date date \<noteq> 0"
  shows "ds3231_dev_ioctl RTC_SET_TIME (Some date) bus = (- EINVAL, None, bus)"
  using assms by (simp add: Let_def check_date_s32 EINVAL_def)

text \<open>
  C5. A time that fails \<open>ds3231_check_date\<close> never reaches the bus. The structured set
  (\<^verbatim>\<open>RTC_SET_TIME\<close>) returns \<^verbatim>\<open>-EINVAL\<close> and leaves the bus as it was: no lock, no
  read, no write, the same registers. So does the text write whenever the time parsed
  from the buffer fails the check, whatever lies behind the buffer. A later read of
  the time therefore sees the chip unchanged.
\<close>

theorem invalid_time_no_io:
  "(ds3231_check_date date \<noteq> 0 \<longrightarrow>
      ds3231_dev_ioctl RTC_SET_TIME (Some date) bus = (- EINVAL, None, bus)
      \<and> ds3231_read_date d (snd (snd (ds3231_dev_ioctl RTC_SET_TIME (Some date) bus)))
          = ds3231_read_date d bus)
   \<and> (ds3231_check_date (parse_date (ubuf @ stack) date0) \<noteq> 0 \<longrightarrow>
      ds3231_dev_write date0 stack accessible ubuf bus = (- EINVAL, bus)
      \<and> ds3231_read_date d (snd (ds3231_dev_write date0 stack accessible ubuf bus))
          = ds3231_read_date d bus)"
  using dev_write_invalid [of ubuf stack date0 accessible bus] ioctl_set_invalid [of date bus]
  by (simp del: ds3231_dev_ioctl.simps)

lemma parse_feb31:
  "parse_date (''2024-02-31 12:30:45'' @ CHR 0x0A # stack) date0 =
     date0\<lparr>tm_sec := 45, tm_min := 30, tm_hour := 12, tm_mday := 31, tm_mon := 1, tm_year := 124\<rparr>"
  by (simp add: scan_defs)

lemma check_feb31:
  "ds3231_check_date
     (date0\<lparr>tm_sec := 45, tm_min := 30, tm_hour := 12, tm_mday := 31, tm_mon := 1, tm_year := 124\<rparr>)
    = check_fail"
  by (simp add: ds3231_check_date_def curr_year_def)

text \<open>The theorem for 31 February 2024, as a structured set and as the text write
  \<^verbatim>\<open>2024-02-31 12:30:45\n\<close>.\<close>

theorem invalid_time_no_io_witness:
  "ds3231_check_date (mk_time 45 30 12 31 1 124) \<noteq> 0
   \<and> ds3231_dev_ioctl RTC_SET_TIME (Some (mk_time 45 30 12 31 1 124)) (chip regs_2099 no_faults)
       = (- 22, None, chip regs_2099 no_faults)
   \<and> parse_date (''2024-02-31 12:30:45'' @ [CHR 0x0A]) zero_time = mk_time 45 30 12 31 1 124
   \<and> ds3231_dev_write zero_time [] True (''2024-02-31 12:30:45'' @ [CHR 0x0A])
         (chip regs_2099 no_faults)
       = (- 22, chip regs_2099 no_faults)"
  using invalid_time_no_io [of "mk_time 45 30 12 31 1 124" "chip regs_2099 no_faults" zero_time
      "''2024-02-31 12:30:45'' @ [CHR 0x0A]" "[]" zero_time True]
    parse_feb31 [of "[]" zero_time] check_feb31 [of zero_time]
  by (simp add: mk_time_def zero_time_def check_fail_simps EINVAL_def)

lemma dev_write_too_long:
  assumes "20 < length ubuf"
  shows "ds3231_dev_write date0 stack accessible ubuf bus = (- EINVAL, bus)"
  using assms by (simp add: ds3231_dev_write_def)

lemma dev_write_bad_layout:
  assumes "\<exists>(p, c)\<in>set date_layout. p < length ubuf \<and> ubuf ! p \<noteq> c"
  shows "ds3231_dev_write date0 stack accessible ubuf bus = (- EINVAL, bus)"
proof -
  from assms obtain p c where "(p, c) \<in> set date_layout" "p < length ubuf" "ubuf ! p \<noteq> c"
    by blast
  then have "\<not> fst (layout_check (ubuf @ stack) date_layout)"
    by (rule layout_check_mismatch)
  then show ?thesis by (simp add: ds3231_dev_write_def Let_def)
qed

text \<open>
  What holds of the format rules of the text write. The 20 bytes
  \<^verbatim>\<open>2024-03-15 12:30:45\n\<close> pass the layout test and are parsed to second 45, minute
  30, hour 12, day 15, month 3 (\<open>tm_mon = 2\<close>) and year 2024 (\<open>tm_year = 124\<close>), and
  this time is what \<open>ds3231_write_date\<close> is called with. A buffer in which one of the
  bytes 4, 7, 10, 13, 16 is present and is not \<^verbatim>\<open>-\<close>, \<^verbatim>\<open>-\<close>, space, \<^verbatim>\<open>:\<close>, \<^verbatim>\<open>:\<close> is
  rejected with \<^verbatim>\<open>-EINVAL\<close> and the bus is not touched; so is every buffer of more
  than 20 bytes.
\<close>

lemma text_write_format:
  "parse_date (''2024-03-15 12:30:45'' @ CHR 0x0A # stack) date0 =
     date0\<lparr>tm_sec := 45, tm_min := 30, tm_hour := 12, tm_mday := 15, tm_mon := 2, tm_year := 124\<rparr>
   \<and> tm_mon (parse_date (''2024-03-15 12:30:45'' @ CHR 0x0A # stack) date0) + 1 = 3
   \<and> tm_year (parse_date (''2024-03-15 12:30:45'' @ CHR 0x0A # stack) date0) + 1900 = 2024
   \<and> ds3231_dev_write date0 stack True (''2024-03-15 12:30:45'' @ [CHR 0x0A]) bus =
     (let (ret, bus') = ds3231_write_date
         (date0\<lparr>tm_sec := 45, tm_min := 30, tm_hour := 12, tm_mday := 15, tm_mon := 2,
                 tm_year := 124\<rparr>) bus
      in if ret \<noteq> 0 then (ret, bus') else (20, bus'))
   \<and> ((\<exists>(p, c)\<in>set date_layout. p < length ubuf \<and> ubuf ! p \<noteq> c) \<longrightarrow>
        ds3231_dev_write date0 stack accessible ubuf bus = (- EINVAL, bus))
   \<and> (20 < length ubuf \<longrightarrow>
        ds3231_dev_write date0 stack accessible ubuf bus = (- EINVAL, bus))"
  using dev_write_bad_layout [of ubuf date0 stack accessible bus]
    dev_write_too_long [of ubuf date0 stack accessible bus]
  by (simp only: parse_2024 dev_write_2024) simp

text \<open>The same for \<^verbatim>\<open>2024/03/15 12:30:45\<close> and for a buffer of 21 bytes.\<close>

lemma text_write_format_instances:
  "(\<exists>(p, c)\<in>set date_layout.
       p < length ''2024/03/15 12:30:45'' \<and> ''2024/03/15 12:30:45'' ! p \<noteq> c)
   \<and> ds3231_dev_write zero_time [] True ''2024/03/15 12:30:45'' (chip regs_2099 no_faults)
       = (- 22, chip regs_2099 no_faults)
   \<and> 20 < length (''2024-03-15 12:30:45'' @ [CHR 0x0D, CHR 0x0A])
   \<and> ds3231_dev_write zero_time [] True (''2024-03-15 12:30:45'' @ [CHR 0x0D, CHR 0x0A])
         (chip regs_2099 no_faults)
       = (- 22, chip regs_2099 no_faults)"
proof -
  have a: "\<exists>(p, c)\<in>set date_layout.
       p < length ''2024/03/15 12:30:45'' \<and> ''2024/03/15 12:30:45'' ! p \<noteq> c"
    by (simp add: date_layout_def)
  have b: "20 < length (''2024-03-15 12:30:45'' @ [CHR 0x0D, CHR 0x0A])"
    by simp
  from a b
    text_write_format [of "[]" zero_time "chip regs_2099 no_faults" "''2024/03/15 12:30:45''" True]
    text_write_format [of "[]" zero_time "chip regs_2099 no_faults"
      "''2024-03-15 12:30:45'' @ [CHR 0x0D, CHR 0x0A]" True]
  show ?thesis by (simp add: EINVAL_def)
qed

lemma dev_write_16:
  "ds3231_dev_write zero_time ('':45'' @ [CHR 0x0A]) True ''2024-03-15 12:30'' bus =
     (let (ret, bus') = ds3231_write_date time_2024 bus
      in if ret \<noteq> 0 then (ret, bus') else (16, bus'))"
  using parse_2024 [of "[]" zero_time] layout_2024 [of "CHR 0x0A" "[]"]
  by (simp add: ds3231_dev_write_def copy_user_def check_time_2024 check_fail_simps EINVAL_def
      time_2024_zero Let_def split: prod.splits)

text \<open>
  C6 does not hold of the code. Its first and last parts do (see above), but the
  layout rule fails for a buffer that ends before one of the five positions: the only
  length test is \<^verbatim>\<open>count > 20\<close>, and the layout test then compares what lies behind
  the array. The 16 bytes \<^verbatim>\<open>2024-03-15 12:30\<close> have no byte 16. With \<^verbatim>\<open>:45\n\<close> behind
  them on the stack the write is accepted: it sets the clock to 2024-03-15 12:30:45
  and returns 16. With nothing behind them it is rejected.
\<close>

theorem short_text_write_accepted:
  "length ''2024-03-15 12:30'' \<le> 20
   \<and> (16, CHR '':'') \<in> set date_layout
   \<and> \<not> 16 < length ''2024-03-15 12:30''
   \<and> ds3231_dev_write zero_time ('':45'' @ [CHR 0x0A]) True ''2024-03-15 12:30''
         (chip regs_2099 no_faults) =
       (16, (chip regs_2099 no_faults)
          \<lparr>regs := (regs (chip regs_2099 no_faults))
                     (0 := 0x45, 1 := 0x30, 2 := 0x12, 3 := 0x07, 4 := 0x15, 5 := 0x03, 6 := 0x24),
           trace := [Lock, RdByte 0, RdByte 1, RdByte 2, RdByte 3, RdByte 4, RdByte 5, RdByte 6,
                     Unlock, Lock, WrByte 0 0x45, WrByte 1 0x30, WrByte 2 0x12, WrByte 3 0x07,
                     WrByte 4 0x15, WrByte 5 0x03, WrByte 6 0x24, Unlock]\<rparr>)
   \<and> ds3231_dev_write zero_time [] True ''2024-03-15 12:30'' (chip regs_2099 no_faults)
       = (- EINVAL, chip regs_2099 no_faults)"
proof -
  have a: "ds3231_dev_write zero_time [] True ''2024-03-15 12:30'' (chip regs_2099 no_faults)
       = (- EINVAL, chip regs_2099 no_faults)"
    by (simp add: ds3231_dev_write_def copy_user_def date_layout_def peek_def)
  show ?thesis
    unfolding a dev_write_16 write_date_2024_ok
    by (simp add: date_layout_def)
qed

lemma layout_check_first_read:
  "snd (layout_check mem date_layout) \<noteq> [] \<and> hd (snd (layout_check mem date_layout)) = 4"
  by (simp add: date_layout_def split: prod.splits)

lemma dev_write_short:
  "ds3231_dev_write zero_time (''4-03-15 12:30:45'' @ [CHR 0x0A]) True ''202'' bus =
     (let (ret, bus') = ds3231_write_date time_2024 bus
      in if ret \<noteq> 0 then (ret, bus') else (3, bus'))"
  using parse_2024 [of "[]" zero_time] layout_2024 [of "CHR 0x0A" "[]"]
  by (simp add: ds3231_dev_write_def copy_user_def check_time_2024 check_fail_simps EINVAL_def
      time_2024_zero Let_def split: prod.splits)

text \<open>
  C10 does not hold of the code: the only length test is \<^verbatim>\<open>count > 20\<close>. For the three
  bytes \<^verbatim>\<open>202\<close> the layout test reads \<^verbatim>\<open>date_str[4]\<close>, behind the three bytes of the
  array. What the call does then depends on the memory behind the array: with nothing
  there it returns \<^verbatim>\<open>-EINVAL\<close>; with \<^verbatim>\<open>4-03-15 12:30:45\n\<close> there it sets the clock to
  2024-03-15 12:30:45 and returns 3.
\<close>

theorem layout_check_reads_past_buffer:
  "length ''202'' \<le> 20
   \<and> hd (snd (layout_check (''202'' @ stack) date_layout)) = 4
   \<and> \<not> 4 < length ''202''
   \<and> ds3231_dev_write zero_time [] True ''202'' (chip regs_2099 no_faults)
       = (- EINVAL, chip regs_2099 no_faults)
   \<and> fst (ds3231_dev_write zero_time (''4-03-15 12:30:45'' @ [CHR 0x0A]) True ''202''
             (chip regs_2099 no_faults)) = 3
   \<and> map (regs (snd (ds3231_dev_write zero_time (''4-03-15 12:30:45'' @ [CHR 0x0A]) True ''202''
                        (chip regs_2099 no_faults)))) [0, 1, 2, 3, 4, 5, 6]
       = [0x45, 0x30, 0x12, 0x07, 0x15, 0x03, 0x24]"
proof -
  have a: "ds3231_dev_write zero_time [] True ''202'' (chip regs_2099 no_faults)
       = (- EINVAL, chip regs_2099 no_faults)"
    by (simp add: ds3231_dev_write_def copy_user_def date_layout_def peek_def)
  show ?thesis
    unfolding a dev_write_short write_date_2024_ok
    by (simp add: layout_check_first_read)
qed

subsection \<open>Errors that are not passed on\<close>

text \<open>
  C1 does not hold of the code. On a chip whose adapter fails from the eighth transfer
  on, the block read of \<open>ds3231_write_date\<close> succeeds and its block write fails with
  \<^verbatim>\<open>-EIO\<close> at the first byte. \<open>ds3231_write_date\<close> returns 0 all the same, the structured
  set returns 0 and the text write returns its count, 20.
\<close>

theorem write_failure_swallowed:
  "fst (ds3231_write_block_data 0 7 (ds3231_encode time_2024 regs_2099)
          ((chip regs_2099 (fails_after 7))
             \<lparr>trace := [Lock, RdByte 0, RdByte 1, RdByte 2, RdByte 3, RdByte 4, RdByte 5,
                        RdByte 6, Unlock, Lock]\<rparr>)) = - EIO
   \<and> ds3231_write_date time_2024 (chip regs_2099 (fails_after 7)) =
       (0, (chip regs_2099 (fails_after 7))
          \<lparr>trace := [Lock, RdByte 0, RdByte 1, RdByte 2, RdByte 3, RdByte 4, RdByte 5, RdByte 6,
                     Unlock, Lock, WrByte 0 0x45, Unlock]\<rparr>)
   \<and> fst (ds3231_dev_ioctl RTC_SET_TIME (Some time_2024) (chip regs_2099 (fails_after 7))) = 0
   \<and> fst (ds3231_dev_write zero_time [] True (''2024-03-15 12:30:45'' @ [CHR 0x0A])
             (chip regs_2099 (fails_after 7))) = 20"
proof -
  have a: "fst (ds3231_write_block_data 0 7 (ds3231_encode time_2024 regs_2099)
          ((chip regs_2099 (fails_after 7))
             \<lparr>trace := [Lock, RdByte 0, RdByte 1, RdByte 2, RdByte 3, RdByte 4, RdByte 5,
                        RdByte 6, Unlock, Lock]\<rparr>)) = - EIO"
    unfolding encode_2024 by (simp add: bus_defs)
  note b = check_time_2024
  have c: "fst (ds3231_dev_ioctl RTC_SET_TIME (Some time_2024) (chip regs_2099 (fails_after 7))) = 0"
    by (simp add: b check_fail_simps write_date_2024_fail)
  have d: "fst (ds3231_dev_write zero_time [] True (''2024-03-15 12:30:45'' @ [CHR 0x0A])
             (chip regs_2099 (fails_after 7))) = 20"
    unfolding dev_write_2024 time_2024_zero write_date_2024_fail by simp
  from a c d show ?thesis by (simp add: write_date_2024_fail)
qed

text \<open>
  C2 does not hold of the code. With the century bit set in the month register,
  \<open>ds3231_read_date\<close> returns the positive \<^verbatim>\<open>EINVAL\<close> after setting \<open>tm_mday\<close> only. Its
  callers test for a negative result, so the structured get returns 0 with that
  struct, and the text read returns 20 bytes of text.
\<close>

theorem century_bit_not_surfaced:
  "[0x07, 0x02, 0x09, 0x03, 0x05, 0x87, 0x23 :: u8] ! DS3231_REG_MONTH AND DS3231_BIT_CENTURY \<noteq> 0
   \<and> ds3231_read_date zero_time (chip [0x07, 0x02, 0x09, 0x03, 0x05, 0x87, 0x23] no_faults) =
       (EINVAL, zero_time\<lparr>tm_mday := 5\<rparr>,
        (chip [0x07, 0x02, 0x09, 0x03, 0x05, 0x87, 0x23] no_faults)
          \<lparr>trace := [Lock, RdByte 0, RdByte 1, RdByte 2, RdByte 3, RdByte 4, RdByte 5, RdByte 6,
                     Unlock]\<rparr>)
   \<and> ds3231_dev_ioctl RTC_RD_TIME (Some zero_time)
         (chip [0x07, 0x02, 0x09, 0x03, 0x05, 0x87, 0x23] no_faults) =
       (0, Some (zero_time\<lparr>tm_mday := 5\<rparr>),
        (chip [0x07, 0x02, 0x09, 0x03, 0x05, 0x87, 0x23] no_faults)
          \<lparr>trace := [Lock, RdByte 0, RdByte 1, RdByte 2, RdByte 3, RdByte 4, RdByte 5, RdByte 6,
                     Unlock]\<rparr>)
   \<and> ds3231_dev_read zero_time True 64 open_offset
         (chip [0x07, 0x02, 0x09, 0x03, 0x05, 0x87, 0x23] no_faults) =
       (20, ''05.01.1900 00:00:00'' @ [CHR 0x0A], 1,
        (chip [0x07, 0x02, 0x09, 0x03, 0x05, 0x87, 0x23] no_faults)
          \<lparr>trace := [Lock, RdByte 0, RdByte 1, RdByte 2, RdByte 3, RdByte 4, RdByte 5, RdByte 6,
                     Unlock]\<rparr>)"
proof -
  have a: "ds3231_read_date zero_time (chip [0x07, 0x02, 0x09, 0x03, 0x05, 0x87, 0x23] no_faults) =
       (EINVAL, zero_time\<lparr>tm_mday := 5\<rparr>,
        (chip [0x07, 0x02, 0x09, 0x03, 0x05, 0x87, 0x23] no_faults)
          \<lparr>trace := [Lock, RdByte 0, RdByte 1, RdByte 2, RdByte 3, RdByte 4, RdByte 5, RdByte 6,
                     Unlock]\<rparr>)"
    unfolding read_date_ok [OF chip_regs(8)] chip_regs decode_century by (simp add: EINVAL_def)
  have b: "ds3231_dev_read zero_time True 64 open_offset
         (chip [0x07, 0x02, 0x09, 0x03, 0x05, 0x87, 0x23] no_faults) =
       (20, ''05.01.1900 00:00:00'' @ [CHR 0x0A], 1,
        (chip [0x07, 0x02, 0x09, 0x03, 0x05, 0x87, 0x23] no_faults)
          \<lparr>trace := [Lock, RdByte 0, RdByte 1, RdByte 2, RdByte 3, RdByte 4, RdByte 5, RdByte 6,
                     Unlock]\<rparr>)"
    by (simp add: ds3231_dev_read_def open_offset_def a scnprintf_date_def text_century
        copy_user_def EINVAL_def)
  have c: "ds3231_dev_ioctl RTC_RD_TIME (Some zero_time)
         (chip [0x07, 0x02, 0x09, 0x03, 0x05, 0x87, 0x23] no_faults) =
       (0, Some (zero_time\<lparr>tm_mday := 5\<rparr>),
        (chip [0x07, 0x02, 0x09, 0x03, 0x05, 0x87, 0x23] no_faults)
          \<lparr>trace := [Lock, RdByte 0, RdByte 1, RdByte 2, RdByte 3, RdByte 4, RdByte 5, RdByte 6,
                     Unlock]\<rparr>)"
    by (simp add: a EINVAL_def)
  show ?thesis
    unfolding a b c by (simp add: ds3231_regs)
qed

end
